theory Spec2Isabelle
  imports Main "HOL-Library.Word"
begin

unbundle bit_operations_syntax

section \<open>The account record and its object representation\<close>

text \<open>
  The bank account programs \<^verbatim>\<open>version2.c\<close> (file operations) and \<^verbatim>\<open>version3.c\<close> (CRUD
  operations) share one record type:
  \<^verbatim>\<open>
  struct client_data {
      unsigned int acct_num;  // Account number (1-100)
      char last_name[15];     // Last name (14 chars + \0)
      char first_name[10];    // First name (9 chars + \0)
      double balance;         // Account balance
  };
  \<close>
  \<open>unsigned int\<close> is a 32-bit word. The two names are the whole arrays, terminator and the
  bytes behind it included, because \<open>fwrite\<close> stores the whole arrays. A \<open>double\<close> is kept as
  its 64-bit pattern: the programs copy and store balances; the one arithmetic operation
  on them (the \<open>+=\<close> of an update) is a parameter of \<open>update_account\<close> below.
\<close>

type_synonym u32 = "32 word"
type_synonym double = "64 word"

record client_data =
  acct_num :: u32
  last_name :: string
  first_name :: string
  balance :: double

abbreviation NUL :: char where "NUL \<equiv> CHR 0x00"

abbreviation MAX_ACCOUNTS :: int where "MAX_ACCOUNTS \<equiv> 100"
abbreviation MIN_ACCOUNT_NUM :: u32 where "MIN_ACCOUNT_NUM \<equiv> 1"
abbreviation MAX_ACCOUNT_NUM :: u32 where "MAX_ACCOUNT_NUM \<equiv> 100"

text \<open>
  \<open>RECORD_SIZE\<close> is \<open>sizeof(struct client_data)\<close>: 4 bytes of account number, 15 and 10 bytes
  of names, 3 bytes of padding that align the \<open>double\<close>, and its 8 bytes; 40 bytes on the
  usual ABIs.
\<close>

abbreviation RECORD_SIZE :: nat where "RECORD_SIZE \<equiv> 40"

text \<open>The array sizes that the type \<open>struct client_data\<close> fixes.\<close>

definition wf_client :: "client_data \<Rightarrow> bool" where
  "wf_client c \<longleftrightarrow> length (last_name c) = 15 \<and> length (first_name c) = 10"

text \<open>\<open>struct client_data empty_client = {0, "", "", 0.0}\<close>: the rest of each array is zero.\<close>

definition empty_client :: client_data where
  "empty_client = \<lparr>acct_num = 0, last_name = replicate 15 NUL,
     first_name = replicate 10 NUL, balance = 0\<rparr>"

subsection \<open>Bytes of a record\<close>

text \<open>
  \<open>fwrite(client, RECORD_SIZE, 1, file_ptr)\<close> stores the object representation of the record and
  \<open>fread\<close> loads it. The representation is the little-endian one; padding bytes, which C
  leaves unspecified, are written as zero and ignored when read.
\<close>

fun le_bytes :: "nat \<Rightarrow> 'a::len word \<Rightarrow> string" where
  "le_bytes 0 w = []"
| "le_bytes (Suc n) w = char_of (unat w) # le_bytes n (drop_bit 8 w)"

fun le_word :: "string \<Rightarrow> 'a::len word" where
  "le_word [] = 0"
| "le_word (c # cs) = of_char c OR push_bit 8 (le_word cs)"

definition encode :: "client_data \<Rightarrow> string" where
  "encode c = le_bytes 4 (acct_num c) @ last_name c @ first_name c
     @ replicate 3 NUL @ le_bytes 8 (balance c)"

definition decode :: "string \<Rightarrow> client_data" where
  "decode bs = \<lparr>acct_num = le_word (take 4 bs), last_name = take 15 (drop 4 bs),
     first_name = take 10 (drop 19 bs), balance = le_word (take 8 (drop 32 bs))\<rparr>"

section \<open>Strings and character classes of the C library\<close>

text \<open>
  A \<open>char*\<close> argument is the memory from the pointer on (\<open>None\<close> for \<open>NULL\<close>); the string it
  holds ends before the first \<open>NUL\<close>.
\<close>

definition c_str :: "string \<Rightarrow> string" where
  "c_str buf = takeWhile (\<lambda>c. c \<noteq> NUL) buf"

definition strlen :: "string \<Rightarrow> nat" where
  "strlen buf = length (c_str buf)"

text \<open>
  Storing bytes into an array from an index on. An array never changes its size; a store
  behind its end is undefined in C and dropped here.
\<close>

fun poke :: "string \<Rightarrow> nat \<Rightarrow> string \<Rightarrow> string" where
  "poke buf i [] = buf"
| "poke buf i (c # cs) = poke (buf[i := c]) (Suc i) cs"

text \<open>\<open>strncpy(dst, src, n)\<close> writes exactly \<open>n\<close> bytes: the string, cut at \<open>n\<close>, then zeros.\<close>

definition strncpy :: "string \<Rightarrow> string \<Rightarrow> nat \<Rightarrow> string" where
  "strncpy dst src n =
     poke dst 0 (take n (c_str src) @ replicate (n - length (c_str src)) NUL)"

text \<open>
  \<open>memmove(buffer, buffer + start, n)\<close>.
\<close>

definition memmove :: "string \<Rightarrow> nat \<Rightarrow> nat \<Rightarrow> string" where
  "memmove buffer start n = poke buffer 0 (take n (drop start buffer))"

text \<open>
  The programs never call \<open>setlocale\<close>, so the classes are those of the "C" locale:
  \<open>isalpha\<close> holds of the 52 ASCII letters, \<open>isspace\<close> of space and the five controls
  \<open>\t \n \v \f \r\<close>, and no byte from 128 on is in either class. \<open>tolower\<close> maps the 26
  capital letters and leaves every other byte.
\<close>

definition isalpha :: "char \<Rightarrow> bool" where
  "isalpha c \<longleftrightarrow> (let n = (of_char c :: nat) in (65 \<le> n \<and> n \<le> 90) \<or> (97 \<le> n \<and> n \<le> 122))"

definition isspace :: "char \<Rightarrow> bool" where
  "isspace c \<longleftrightarrow> (let n = (of_char c :: nat) in n = 32 \<or> (9 \<le> n \<and> n \<le> 13))"

definition tolower :: "char \<Rightarrow> char" where
  "tolower c = (let n = (of_char c :: nat) in if 65 \<le> n \<and> n \<le> 90 then char_of (n + 32) else c)"

section \<open>Input validation (version3.c)\<close>

text \<open>
  \<^verbatim>\<open>
  int validate_account_number(unsigned int acct_num) {
      return (acct_num >= MIN_ACCOUNT_NUM && acct_num <= MAX_ACCOUNT_NUM);
  }
  \<close>
  The C functions that answer 0 or 1 are \<open>bool\<close> here.
\<close>

definition validate_account_number :: "u32 \<Rightarrow> bool" where
  "validate_account_number acct \<longleftrightarrow>
     acct \<ge> MIN_ACCOUNT_NUM \<and> acct \<le> MAX_ACCOUNT_NUM"

text \<open>
  \<^verbatim>\<open>
  int validate_name(const char* name) {
      if (name == NULL) return 0;
      size_t len = strlen(name);
      if (len == 0) return 0;
      for (size_t i = 0; i < len; i++) {
          char c = name[i];
          if (!isalpha(c) && c != ' ' && c != '-' && c != '\'') {
              return 0;
          }
      }
      return 1;
  }
  \<close>
\<close>

function validate_name_loop :: "string \<Rightarrow> nat \<Rightarrow> nat \<Rightarrow> bool" where
  "validate_name_loop name i len =
     (if i < len then
        (let c = name ! i in
         if \<not> isalpha c \<and> c \<noteq> CHR '' '' \<and> c \<noteq> CHR ''-'' \<and> c \<noteq> CHR 0x27 then False
         else validate_name_loop name (Suc i) len)
      else True)"
  by pat_completeness auto
termination
  by (relation "measure (\<lambda>(name, i, len). len - i)") auto

declare validate_name_loop.simps [simp del]

definition validate_name :: "string option \<Rightarrow> bool" where
  "validate_name name =
     (case name of
        None \<Rightarrow> False
      | Some s \<Rightarrow>
          (let len = strlen s in
           if len = 0 then False else validate_name_loop s 0 len))"

text \<open>The characters that the loop of \<open>validate_name\<close> lets pass.\<close>

definition name_char :: "char \<Rightarrow> bool" where
  "name_char c \<longleftrightarrow> isalpha c \<or> c = CHR '' '' \<or> c = CHR ''-'' \<or> c = CHR 0x27"

section \<open>Filling a record (version2.c and version3.c, the same text)\<close>

text \<open>
  \<^verbatim>\<open>
  void initialize_client(struct client_data* client, unsigned int acct_num,
                        const char* last_name, const char* first_name, double balance) {
      if (client == NULL) return;
      client->acct_num = acct_num;
      client->balance = balance;
      if (last_name != NULL) {
          strncpy(client->last_name, last_name, sizeof(client->last_name) - 1);
          client->last_name[sizeof(client->last_name) - 1] = '\0';
      } else {
          client->last_name[0] = '\0';
      }
      if (first_name != NULL) {
          strncpy(client->first_name, first_name, sizeof(client->first_name) - 1);
          client->first_name[sizeof(client->first_name) - 1] = '\0';
      } else {
          client->first_name[0] = '\0';
      }
  }
  \<close>
  The record behind \<open>client\<close> is passed in and the filled record is returned; \<open>None\<close> is the
  \<open>NULL\<close> pointer, for which nothing is filled.
\<close>

definition initialize_client ::
  "client_data option \<Rightarrow> u32 \<Rightarrow> string option \<Rightarrow> string option \<Rightarrow> double
     \<Rightarrow> client_data option" where
  "initialize_client client acct lname fname bal =
     (case client of
        None \<Rightarrow> None
      | Some c0 \<Rightarrow>
          (let c1 = c0\<lparr>acct_num := acct\<rparr>;
               c2 = c1\<lparr>balance := bal\<rparr>;
               c3 = (case lname of
                       Some s \<Rightarrow> c2\<lparr>last_name := (strncpy (last_name c2) s 14)[14 := NUL]\<rparr>
                     | None \<Rightarrow> c2\<lparr>last_name := (last_name c2)[0 := NUL]\<rparr>);
               c4 = (case fname of
                       Some s \<Rightarrow> c3\<lparr>first_name := (strncpy (first_name c3) s 9)[9 := NUL]\<rparr>
                     | None \<Rightarrow> c3\<lparr>first_name := (first_name c3)[0 := NUL]\<rparr>)
           in Some c4))"

section \<open>The data file and the stdio calls on it\<close>

text \<open>
  Both programs work on the one file \<^verbatim>\<open>accounts.dat\<close> and have at most one stream open on
  it. The world holds the bytes of the file (\<open>None\<close> while it does not exist), the position
  of the open stream, and the trace of the stdio calls that reached the file, so that
  "no I/O" and "no write" are statements about the trace. A stream is known by its mode.
  The file system of the model does not fail by itself: an open fails only for a missing
  file in a read mode, a read comes up short only at the end of the file, and a write
  fails only on a stream that is not open for writing.
\<close>

datatype open_mode = RB | WB | RBplus | WBplus

type_synonym FILE = open_mode

datatype io_event = EvOpen open_mode | EvSeek nat | EvRead nat | EvWrite nat | EvClose

record world =
  disk :: "string option"
  stream_pos :: nat
  io_log :: "io_event list"

definition emit :: "io_event \<Rightarrow> world \<Rightarrow> world" where
  "emit e w = w\<lparr>io_log := io_log w @ [e]\<rparr>"

definition readable :: "FILE \<Rightarrow> bool" where
  "readable fp \<longleftrightarrow> fp \<noteq> WB"

definition writable :: "FILE \<Rightarrow> bool" where
  "writable fp \<longleftrightarrow> fp \<noteq> RB"

text \<open>
  \<open>fopen(DATA_FILE, mode)\<close>: \<open>"rb"\<close> and \<open>"rb+"\<close> need the file, \<open>"wb"\<close> and \<open>"wb+"\<close> create it
  or cut it to length zero.
\<close>

definition fopen :: "open_mode \<Rightarrow> world \<Rightarrow> FILE option \<times> world" where
  "fopen mode w =
     (if mode = RB \<or> mode = RBplus then
        (if disk w = None then (None, emit (EvOpen mode) w)
         else (Some mode, emit (EvOpen mode) (w\<lparr>stream_pos := 0\<rparr>)))
      else (Some mode, emit (EvOpen mode) (w\<lparr>disk := Some [], stream_pos := 0\<rparr>)))"

definition fclose :: "FILE \<Rightarrow> world \<Rightarrow> int \<times> world" where
  "fclose fp w = (0, emit EvClose w)"

text \<open>\<open>fseek(file_ptr, offset, SEEK_SET)\<close>.\<close>

definition fseek :: "FILE \<Rightarrow> int \<Rightarrow> world \<Rightarrow> int \<times> world" where
  "fseek fp offset w =
     (if offset < 0 then (- 1, w)
      else (0, emit (EvSeek (nat offset)) (w\<lparr>stream_pos := nat offset\<rparr>)))"

text \<open>
  Writing bytes at an offset of the file: a gap between the old end and the offset reads
  as zeros, bytes behind the written block stay.
\<close>

definition pwrite :: "string \<Rightarrow> nat \<Rightarrow> string \<Rightarrow> string" where
  "pwrite d off bs =
     take off d @ replicate (off - length d) NUL @ bs @ drop (off + length bs) d"

text \<open>
  \<open>fread(client, RECORD_SIZE, 1, file_ptr)\<close>: the count of whole records read, 1 or 0, and
  the record behind \<open>client\<close> afterwards. A whole block replaces the record; of a short
  block the bytes that were there are stored over the front of the record.
\<close>

definition fread_record :: "client_data \<Rightarrow> FILE \<Rightarrow> world \<Rightarrow> nat \<times> client_data \<times> world" where
  "fread_record client fp w =
     (case disk w of
        None \<Rightarrow> (0, client, w)
      | Some d \<Rightarrow>
          if \<not> readable fp then (0, client, w)
          else
            (let avail = take RECORD_SIZE (drop (stream_pos w) d);
                 w' = emit (EvRead (stream_pos w))
                        (w\<lparr>stream_pos := stream_pos w + length avail\<rparr>)
             in if length avail = RECORD_SIZE then (1, decode avail, w')
                else (0, decode (poke (encode client) 0 avail), w')))"

text \<open>\<open>fwrite(client, RECORD_SIZE, 1, file_ptr)\<close>: the count of records written.\<close>

definition fwrite_record :: "client_data \<Rightarrow> FILE \<Rightarrow> world \<Rightarrow> nat \<times> world" where
  "fwrite_record client fp w =
     (case disk w of
        None \<Rightarrow> (0, w)
      | Some d \<Rightarrow>
          if \<not> writable fp then (0, w)
          else (1, emit (EvWrite (stream_pos w))
                     (w\<lparr>disk := Some (pwrite d (stream_pos w) (encode client)),
                        stream_pos := stream_pos w + RECORD_SIZE\<rparr>)))"

text \<open>\<open>memset(client, 0, sizeof(struct client_data))\<close>: the record of forty zero bytes.\<close>

definition memset_zero :: client_data where
  "memset_zero = decode (replicate RECORD_SIZE NUL)"

section \<open>The slot store\<close>

text \<open>
  \<open>open_data_file\<close> and \<open>close_data_file\<close> are the same in both versions but for the messages
  they print.
  \<^verbatim>\<open>
  FILE* open_data_file(const char* mode) {
      FILE* file_ptr = fopen(DATA_FILE, mode);
      if (file_ptr == NULL) { printf(...); }
      return file_ptr;
  }
  int close_data_file(FILE* file_ptr) {
      if (file_ptr == NULL) return -1;
      return fclose(file_ptr);
  }
  \<close>
\<close>

definition open_data_file :: "open_mode \<Rightarrow> world \<Rightarrow> FILE option \<times> world" where
  "open_data_file mode w = fopen mode w"

definition close_data_file :: "FILE option \<Rightarrow> world \<Rightarrow> int \<times> world" where
  "close_data_file file_ptr w =
     (case file_ptr of None \<Rightarrow> (- 1, w) | Some fp \<Rightarrow> fclose fp w)"

subsection \<open>version2.c\<close>

text \<open>
  \<^verbatim>\<open>
  int write_client_to_file(FILE* file_ptr, const struct client_data* client, int position) {
      if (file_ptr == NULL || client == NULL) { ... return 0; }
      if (position < 0 || position >= MAX_ACCOUNTS) { ... return 0; }
      long file_position = position * RECORD_SIZE;
      if (fseek(file_ptr, file_position, SEEK_SET) != 0) { ... return 0; }
      size_t written = fwrite(client, RECORD_SIZE, 1, file_ptr);
      if (written == 1) { ... return 1; } else { ... return 0; }
  }
  \<close>
  \<open>position\<close> is a C \<open>int\<close>; every value of it is covered.
\<close>

definition write_client_to_file_v2 ::
  "FILE option \<Rightarrow> client_data option \<Rightarrow> int \<Rightarrow> world \<Rightarrow> bool \<times> world" where
  "write_client_to_file_v2 file_ptr client position w =
     (case (file_ptr, client) of
        (Some fp, Some c) \<Rightarrow>
          if position < 0 \<or> position \<ge> MAX_ACCOUNTS then (False, w)
          else
            (let file_position = position * int RECORD_SIZE in
             case fseek fp file_position w of
               (rc, w1) \<Rightarrow>
                 if rc \<noteq> 0 then (False, w1)
                 else (case fwrite_record c fp w1 of
                         (written, w2) \<Rightarrow> if written = 1 then (True, w2) else (False, w2)))
      | _ \<Rightarrow> (False, w))"

text \<open>
  \<^verbatim>\<open>
  int read_client_from_file(FILE* file_ptr, struct client_data* client, int position) {
      if (file_ptr == NULL || client == NULL) { ... return 0; }
      if (position < 0 || position >= MAX_ACCOUNTS) { ... return 0; }
      long file_position = position * RECORD_SIZE;
      if (fseek(file_ptr, file_position, SEEK_SET) != 0) { ... return 0; }
      size_t read_count = fread(client, RECORD_SIZE, 1, file_ptr);
      if (read_count == 1) { ... return 1; }
      else {
          ...
          // Initialize empty client for consistency
          memset(client, 0, sizeof(struct client_data));
          return 0;
      }
  }
  \<close>
  The result carries the record behind \<open>client\<close> as the call leaves it.
\<close>

definition read_client_from_file_v2 ::
  "FILE option \<Rightarrow> client_data option \<Rightarrow> int \<Rightarrow> world
     \<Rightarrow> bool \<times> client_data option \<times> world" where
  "read_client_from_file_v2 file_ptr client position w =
     (case (file_ptr, client) of
        (Some fp, Some c) \<Rightarrow>
          if position < 0 \<or> position \<ge> MAX_ACCOUNTS then (False, client, w)
          else
            (let file_position = position * int RECORD_SIZE in
             case fseek fp file_position w of
               (rc, w1) \<Rightarrow>
                 if rc \<noteq> 0 then (False, client, w1)
                 else (case fread_record c fp w1 of
                         (read_count, c', w2) \<Rightarrow>
                           if read_count = 1 then (True, Some c', w2)
                           else (False, Some memset_zero, w2)))
      | _ \<Rightarrow> (False, client, w))"

text \<open>
  \<^verbatim>\<open>
  void initialize_data_file(void) {
      FILE* file_ptr = fopen(DATA_FILE, "wb");
      if (file_ptr == NULL) { ... return; }
      struct client_data empty_client = {0, "", "", 0.0};
      for (int i = 0; i < MAX_ACCOUNTS; i++) {
          if (fwrite(&empty_client, RECORD_SIZE, 1, file_ptr) != 1) { ... break; }
      }
      ...
      fclose(file_ptr);
  }
  \<close>
\<close>

function initialize_loop_v2 :: "FILE \<Rightarrow> int \<Rightarrow> world \<Rightarrow> world" where
  "initialize_loop_v2 fp i w =
     (if i < MAX_ACCOUNTS then
        (case fwrite_record empty_client fp w of
           (written, w') \<Rightarrow> if written \<noteq> 1 then w' else initialize_loop_v2 fp (i + 1) w')
      else w)"
  by pat_completeness auto
termination
  by (relation "measure (\<lambda>(fp, i, w). nat (MAX_ACCOUNTS - i))") auto

declare initialize_loop_v2.simps [simp del]

definition initialize_data_file :: "world \<Rightarrow> world" where
  "initialize_data_file w =
     (case fopen WB w of
        (None, w1) \<Rightarrow> w1
      | (Some fp, w1) \<Rightarrow> snd (fclose fp (initialize_loop_v2 fp 0 w1)))"

subsection \<open>version3.c\<close>

text \<open>
  \<^verbatim>\<open>
  int write_client_to_file(FILE* file_ptr, const struct client_data* client, int position) {
      if (file_ptr == NULL || client == NULL || position < 0 || position >= MAX_ACCOUNTS) {
          return 0;
      }
      long file_position = position * RECORD_SIZE;
      if (fseek(file_ptr, file_position, SEEK_SET) != 0) return 0;
      return (fwrite(client, RECORD_SIZE, 1, file_ptr) == 1);
  }
  int read_client_from_file(FILE* file_ptr, struct client_data* client, int position) {
      if (file_ptr == NULL || client == NULL || position < 0 || position >= MAX_ACCOUNTS) {
          return 0;
      }
      long file_position = position * RECORD_SIZE;
      if (fseek(file_ptr, file_position, SEEK_SET) != 0) return 0;
      return (fread(client, RECORD_SIZE, 1, file_ptr) == 1);
  }
  \<close>
\<close>

definition write_client_to_file ::
  "FILE option \<Rightarrow> client_data option \<Rightarrow> int \<Rightarrow> world \<Rightarrow> bool \<times> world" where
  "write_client_to_file file_ptr client position w =
     (case (file_ptr, client) of
        (Some fp, Some c) \<Rightarrow>
          if position < 0 \<or> position \<ge> MAX_ACCOUNTS then (False, w)
          else
            (let file_position = position * int RECORD_SIZE in
             case fseek fp file_position w of
               (rc, w1) \<Rightarrow>
                 if rc \<noteq> 0 then (False, w1)
                 else (case fwrite_record c fp w1 of (written, w2) \<Rightarrow> (written = 1, w2)))
      | _ \<Rightarrow> (False, w))"

definition read_client_from_file ::
  "FILE option \<Rightarrow> client_data option \<Rightarrow> int \<Rightarrow> world
     \<Rightarrow> bool \<times> client_data option \<times> world" where
  "read_client_from_file file_ptr client position w =
     (case (file_ptr, client) of
        (Some fp, Some c) \<Rightarrow>
          if position < 0 \<or> position \<ge> MAX_ACCOUNTS then (False, client, w)
          else
            (let file_position = position * int RECORD_SIZE in
             case fseek fp file_position w of
               (rc, w1) \<Rightarrow>
                 if rc \<noteq> 0 then (False, client, w1)
                 else (case fread_record c fp w1 of
                         (read_count, c', w2) \<Rightarrow> (read_count = 1, Some c', w2)))
      | _ \<Rightarrow> (False, client, w))"

text \<open>
  \<^verbatim>\<open>
  void initialize_data_file_if_needed(void) {
      FILE* test_file = fopen(DATA_FILE, "rb");
      if (test_file != NULL) { fclose(test_file); ... return; }
      FILE* file_ptr = fopen(DATA_FILE, "wb");
      if (file_ptr == NULL) { ... return; }
      struct client_data empty_client = {0, "", "", 0.0};
      for (int i = 0; i < MAX_ACCOUNTS; i++) {
          fwrite(&empty_client, RECORD_SIZE, 1, file_ptr);
      }
      fclose(file_ptr);
  }
  \<close>
\<close>

function initialize_loop :: "FILE \<Rightarrow> int \<Rightarrow> world \<Rightarrow> world" where
  "initialize_loop fp i w =
     (if i < MAX_ACCOUNTS then
        initialize_loop fp (i + 1) (snd (fwrite_record empty_client fp w))
      else w)"
  by pat_completeness auto
termination
  by (relation "measure (\<lambda>(fp, i, w). nat (MAX_ACCOUNTS - i))") auto

declare initialize_loop.simps [simp del]

definition initialize_data_file_if_needed :: "world \<Rightarrow> world" where
  "initialize_data_file_if_needed w =
     (case fopen RB w of
        (Some test_file, w1) \<Rightarrow> snd (fclose test_file w1)
      | (None, w1) \<Rightarrow>
          (case fopen WB w1 of
             (None, w2) \<Rightarrow> w2
           | (Some fp, w2) \<Rightarrow> snd (fclose fp (initialize_loop fp 0 w2))))"

section \<open>Console input (version3.c)\<close>

text \<open>
  The console is a collaborator of the store: each \<open>scanf\<close> is given as what it converted
  (\<open>None\<close> when it converted nothing), each \<open>fgets\<close> as the characters that wait on \<open>stdin\<close>
  when it is called.
  \<^verbatim>\<open>
  unsigned int get_account_number(const char* prompt) {
      unsigned int acct_num;
      if (scanf("%u", &acct_num) != 1) { ... return 0; }
      clear_input_buffer();
      if (!validate_account_number(acct_num)) { ... return 0; }
      return acct_num;
  }
  double get_balance_input(const char* prompt) {
      double amount;
      if (scanf("%lf", &amount) != 1) { ... return 0.0; }
      clear_input_buffer();
      return amount;
  }
  \<close>
\<close>

definition get_account_number :: "u32 option \<Rightarrow> u32" where
  "get_account_number scanned =
     (case scanned of
        None \<Rightarrow> 0
      | Some acct \<Rightarrow> if \<not> validate_account_number acct then 0 else acct)"

definition get_balance_input :: "double option \<Rightarrow> double" where
  "get_balance_input scanned = (case scanned of None \<Rightarrow> 0 | Some amount \<Rightarrow> amount)"

text \<open>
  \<open>fgets(buffer, n, stdin)\<close> stores at most \<open>n - 1\<close> characters, stops behind a newline, and
  terminates what it stored; at the end of the input it stores nothing and returns \<open>NULL\<close>.
\<close>

definition stdin_line :: "string \<Rightarrow> string" where
  "stdin_line pending =
     takeWhile (\<lambda>c. c \<noteq> CHR 0x0A) pending @ take 1 (dropWhile (\<lambda>c. c \<noteq> CHR 0x0A) pending)"

definition fgets :: "string \<Rightarrow> nat \<Rightarrow> string \<Rightarrow> string option" where
  "fgets buffer n pending =
     (if pending = [] then None
      else Some (poke buffer 0 (take (n - 1) (stdin_line pending) @ [NUL])))"

text \<open>
  \<^verbatim>\<open>
  void get_name_input(char* buffer, int max_length, const char* prompt) {
      if (fgets(buffer, max_length, stdin) != NULL) {
          size_t len = strlen(buffer);
          if (len > 0 && buffer[len - 1] == '\n') {
              buffer[len - 1] = '\0';
          }
          char* start = buffer;
          while (isspace(*start)) start++;
          char* end = start + strlen(start) - 1;
          while (end > start && isspace(*end)) end--;
          end[1] = '\0';
          if (start != buffer) {
              memmove(buffer, start, strlen(start) + 1);
          }
      } else {
          buffer[0] = '\0';
      }
  }
  \<close>
  \<open>start\<close> and \<open>end\<close> are indices into \<open>buffer\<close>; \<open>end\<close> can be one before \<open>start\<close>.
  The first loop ends at the terminator that \<open>fgets\<close> stored, at the latest; the bound on
  \<open>start\<close> in \<open>skip_spaces\<close> only makes the recursion total.
\<close>

function skip_spaces :: "string \<Rightarrow> nat \<Rightarrow> nat" where
  "skip_spaces buffer start =
     (if start < length buffer \<and> isspace (buffer ! start) then skip_spaces buffer (Suc start)
      else start)"
  by pat_completeness auto
termination
  by (relation "measure (\<lambda>(buffer, start). length buffer - start)") auto

declare skip_spaces.simps [simp del]

function trim_end :: "string \<Rightarrow> int \<Rightarrow> int \<Rightarrow> int" where
  "trim_end buffer start e =
     (if e > start \<and> isspace (buffer ! nat e) then trim_end buffer start (e - 1) else e)"
  by pat_completeness auto
termination
  by (relation "measure (\<lambda>(buffer, start, e). nat (e - start))") auto

declare trim_end.simps [simp del]

definition get_name_input :: "string \<Rightarrow> nat \<Rightarrow> string \<Rightarrow> string" where
  "get_name_input buffer max_length pending =
     (case fgets buffer max_length pending of
        None \<Rightarrow> buffer[0 := NUL]
      | Some b0 \<Rightarrow>
          (let len = strlen b0;
               b1 = (if len > 0 \<and> b0 ! (len - 1) = CHR 0x0A then b0[len - 1 := NUL] else b0);
               start = skip_spaces b1 0;
               e0 = int start + int (strlen (drop start b1)) - 1;
               e1 = trim_end b1 (int start) e0;
               b2 = b1[nat (e1 + 1) := NUL]
           in if start \<noteq> 0 then memmove b2 start (strlen (drop start b2) + 1) else b2))"

section \<open>The CRUD operations (version3.c)\<close>

text \<open>
  An automatic variable without initializer starts with indeterminate contents; a frame
  gives the contents that the record and the two name buffers of an operation start with.
\<close>

record frame =
  junk_client :: client_data
  junk_last :: string
  junk_first :: string

definition wf_frame :: "frame \<Rightarrow> bool" where
  "wf_frame fr \<longleftrightarrow>
     wf_client (junk_client fr) \<and> length (junk_last fr) = 15 \<and> length (junk_first fr) = 10"

text \<open>
  In \<^verbatim>\<open>version3.c\<close> as it stands, the texts of \<open>create_account\<close> and \<open>account_exists\<close> are
  each cut behind \<^verbatim>\<open>FILE* file\<close>, and the two remainders, both starting \<^verbatim>\<open>_ptr = open_data_file(\<close>,
  stand in each other's place (the one with \<^verbatim>\<open>"rb+"\<close> and \<open>write_client_to_file\<close> behind the
  closing comment of the test section, the one with \<^verbatim>\<open>"rb"\<close> and
  \<^verbatim>\<open>return (success && client.acct_num != 0)\<close> inside \<open>create_account\<close>). The file compiles
  only with the remainders put back, which is how the two functions are read here.
  \<^verbatim>\<open>
  int account_exists(unsigned int acct_num) {
      if (!validate_account_number(acct_num)) return 0;
      FILE* file_ptr = open_data_file("rb");
      if (file_ptr == NULL) return 0;
      struct client_data client;
      int position = acct_num - 1;
      int success = read_client_from_file(file_ptr, &client, position);
      close_data_file(file_ptr);
      return (success && client.acct_num != 0);
  }
  \<close>
  \<open>int position = acct_num - 1\<close> converts an unsigned value to \<open>int\<close>: \<open>sint\<close>.
\<close>

definition account_exists :: "client_data \<Rightarrow> u32 \<Rightarrow> world \<Rightarrow> bool \<times> world" where
  "account_exists junk acct w =
     (if \<not> validate_account_number acct then (False, w)
      else
        (case open_data_file RB w of
           (None, w1) \<Rightarrow> (False, w1)
         | (Some fp, w1) \<Rightarrow>
             (let position = sint (acct - 1) in
              case read_client_from_file (Some fp) (Some junk) position w1 of
                (success, client, w2) \<Rightarrow>
                  (case close_data_file (Some fp) w2 of
                     (rc, w3) \<Rightarrow> (success \<and> acct_num (the client) \<noteq> 0, w3)))))"

text \<open>
  \<^verbatim>\<open>
  int create_account(void) {
      unsigned int acct_num = get_account_number("Enter new account number (1-100): ");
      if (acct_num == 0) {
          printf("Invalid account number. Operation cancelled.\n");
          return 0;
      }
      if (account_exists(acct_num)) {
          printf("Error: Account #%u already exists!\n", acct_num);
          return 0;
      }
      char last_name[15], first_name[10];
      double initial_balance;
      get_name_input(last_name, sizeof(last_name), "Enter last name: ");
      get_name_input(first_name, sizeof(first_name), "Enter first name: ");
      initial_balance = get_balance_input("Enter initial balance: ");
      if (!validate_name(last_name) || !validate_name(first_name)) {
          printf("Error: Invalid name format. Names cannot be empty.\n");
          return 0;
      }
      struct client_data new_client;
      initialize_client(&new_client, acct_num, last_name, first_name, initial_balance);
      FILE* file_ptr = open_data_file("rb+");
      if (file_ptr == NULL) {
          printf("Error: Could not open data file for writing.\n");
          return 0;
      }
      int position = acct_num - 1;  // Convert to 0-based index
      int success = write_client_to_file(file_ptr, &new_client, position);
      close_data_file(file_ptr);
      if (success) { ... display_client(&new_client); return 1; }
      else { printf("Error: Could not create account. Please try again.\n"); return 0; }
  }
  \<close>
  The result names the \<open>return\<close> that was taken; only \<open>Created\<close> returns 1.
\<close>

datatype create_result =
    Create_invalid_number
  | Create_exists
  | Create_invalid_name
  | Create_open_failed
  | Create_write_failed
  | Created client_data

record create_input =
  ci_acct :: "u32 option"
  ci_last :: string
  ci_first :: string
  ci_balance :: "double option"

definition create_account :: "frame \<Rightarrow> create_input \<Rightarrow> world \<Rightarrow> create_result \<times> world" where
  "create_account fr inp w =
     (let acct = get_account_number (ci_acct inp) in
      if acct = 0 then (Create_invalid_number, w)
      else
        (case account_exists (junk_client fr) acct w of
           (ex, w1) \<Rightarrow>
             if ex then (Create_exists, w1)
             else
               (let lname = get_name_input (junk_last fr) 15 (ci_last inp);
                    fname = get_name_input (junk_first fr) 10 (ci_first inp);
                    initial_balance = get_balance_input (ci_balance inp)
                in if \<not> validate_name (Some lname) \<or> \<not> validate_name (Some fname)
                   then (Create_invalid_name, w1)
                   else
                     (let new_client =
                            the (initialize_client (Some (junk_client fr)) acct
                                   (Some lname) (Some fname) initial_balance)
                      in case open_data_file RBplus w1 of
                           (None, w2) \<Rightarrow> (Create_open_failed, w2)
                         | (Some fp, w2) \<Rightarrow>
                             (let position = sint (acct - 1) in
                              case write_client_to_file (Some fp) (Some new_client) position w2 of
                                (success, w3) \<Rightarrow>
                                  (case close_data_file (Some fp) w3 of
                                     (rc, w4) \<Rightarrow>
                                       if success then (Created new_client, w4)
                                       else (Create_write_failed, w4)))))))"

text \<open>
  \<^verbatim>\<open>
  int read_account(void) {
      unsigned int acct_num = get_account_number("Enter account number to view (1-100): ");
      if (acct_num == 0) { ... return 0; }
      FILE* file_ptr = open_data_file("rb");
      if (file_ptr == NULL) { ... return 0; }
      struct client_data client;
      int position = acct_num - 1;
      int success = read_client_from_file(file_ptr, &client, position);
      close_data_file(file_ptr);
      if (success && client.acct_num != 0) { ... display_client(&client); return 1; }
      else { printf("Account #%u not found or is empty.\n", acct_num); return 0; }
  }
  \<close>
\<close>

datatype read_result =
    Read_invalid_number
  | Read_open_failed
  | Read_not_found
  | Read_found client_data

definition read_account :: "frame \<Rightarrow> u32 option \<Rightarrow> world \<Rightarrow> read_result \<times> world" where
  "read_account fr scanned w =
     (let acct = get_account_number scanned in
      if acct = 0 then (Read_invalid_number, w)
      else
        (case open_data_file RB w of
           (None, w1) \<Rightarrow> (Read_open_failed, w1)
         | (Some fp, w1) \<Rightarrow>
             (let position = sint (acct - 1) in
              case read_client_from_file (Some fp) (Some (junk_client fr)) position w1 of
                (success, client, w2) \<Rightarrow>
                  (case close_data_file (Some fp) w2 of
                     (rc, w3) \<Rightarrow>
                       if success \<and> acct_num (the client) \<noteq> 0 then (Read_found (the client), w3)
                       else (Read_not_found, w3)))))"

text \<open>
  \<^verbatim>\<open>
  int update_account(void) {
      unsigned int acct_num = get_account_number("Enter account number to update (1-100): ");
      if (acct_num == 0) { ... return 0; }
      FILE* file_ptr = open_data_file("rb+");
      if (file_ptr == NULL) { ... return 0; }
      struct client_data client;
      int position = acct_num - 1;
      int success = read_client_from_file(file_ptr, &client, position);
      if (!success || client.acct_num == 0) { ... close_data_file(file_ptr); return 0; }
      int choice;
      if (scanf("%d", &choice) != 1) { ... close_data_file(file_ptr); return 0; }
      switch (choice) {
          case 1: {
              double transaction = get_balance_input("Enter transaction amount (+credit/-debit): ");
              client.balance += transaction;
              break;
          }
          case 2: {
              get_name_input(client.last_name, sizeof(client.last_name), "Enter new last name: ");
              get_name_input(client.first_name, sizeof(client.first_name), "Enter new first name: ");
              if (!validate_name(client.last_name) || !validate_name(client.first_name)) {
                  ... close_data_file(file_ptr); return 0;
              }
              break;
          }
          case 3: {
              get_name_input(client.last_name, sizeof(client.last_name), "Enter new last name: ");
              get_name_input(client.first_name, sizeof(client.first_name), "Enter new first name: ");
              client.balance = get_balance_input("Enter new balance: ");
              if (!validate_name(client.last_name) || !validate_name(client.first_name)) {
                  ... close_data_file(file_ptr); return 0;
              }
              break;
          }
          default:
              ... close_data_file(file_ptr); return 0;
      }
      success = write_client_to_file(file_ptr, &client, position);
      close_data_file(file_ptr);
      if (success) { ... return 1; } else { ... return 0; }
  }
  \<close>
  The addition of two \<open>double\<close>s is the parameter \<open>dadd\<close>.
\<close>

datatype update_result =
    Update_invalid_number
  | Update_open_failed
  | Update_not_found
  | Update_invalid_input
  | Update_invalid_name
  | Update_invalid_choice
  | Update_write_failed
  | Updated client_data

record update_input =
  ui_acct :: "u32 option"
  ui_choice :: "int option"
  ui_amount :: "double option"
  ui_last :: string
  ui_first :: string

text \<open>The body of the \<open>switch\<close>: the changed record, or the result of the \<open>return\<close> inside it.\<close>

definition update_switch ::
  "(double \<Rightarrow> double \<Rightarrow> double) \<Rightarrow> update_input \<Rightarrow> int \<Rightarrow> client_data
     \<Rightarrow> update_result + client_data" where
  "update_switch dadd inp choice client =
     (if choice = 1 then
        (let transaction = get_balance_input (ui_amount inp)
         in Inr (client\<lparr>balance := dadd (balance client) transaction\<rparr>))
      else if choice = 2 then
        (let c1 = client\<lparr>last_name := get_name_input (last_name client) 15 (ui_last inp)\<rparr>;
             c2 = c1\<lparr>first_name := get_name_input (first_name c1) 10 (ui_first inp)\<rparr>
         in if \<not> validate_name (Some (last_name c2)) \<or> \<not> validate_name (Some (first_name c2))
            then Inl Update_invalid_name else Inr c2)
      else if choice = 3 then
        (let c1 = client\<lparr>last_name := get_name_input (last_name client) 15 (ui_last inp)\<rparr>;
             c2 = c1\<lparr>first_name := get_name_input (first_name c1) 10 (ui_first inp)\<rparr>;
             c3 = c2\<lparr>balance := get_balance_input (ui_amount inp)\<rparr>
         in if \<not> validate_name (Some (last_name c3)) \<or> \<not> validate_name (Some (first_name c3))
            then Inl Update_invalid_name else Inr c3)
      else Inl Update_invalid_choice)"

definition update_account ::
  "(double \<Rightarrow> double \<Rightarrow> double) \<Rightarrow> frame \<Rightarrow> update_input \<Rightarrow> world
     \<Rightarrow> update_result \<times> world" where
  "update_account dadd fr inp w =
     (let acct = get_account_number (ui_acct inp) in
      if acct = 0 then (Update_invalid_number, w)
      else
        (case open_data_file RBplus w of
           (None, w1) \<Rightarrow> (Update_open_failed, w1)
         | (Some fp, w1) \<Rightarrow>
             (let position = sint (acct - 1) in
              case read_client_from_file (Some fp) (Some (junk_client fr)) position w1 of
                (success, client, w2) \<Rightarrow>
                  if \<not> success \<or> acct_num (the client) = 0
                  then (Update_not_found, snd (close_data_file (Some fp) w2))
                  else
                    (case ui_choice inp of
                       None \<Rightarrow> (Update_invalid_input, snd (close_data_file (Some fp) w2))
                     | Some choice \<Rightarrow>
                         (case update_switch dadd inp choice (the client) of
                            Inl r \<Rightarrow> (r, snd (close_data_file (Some fp) w2))
                          | Inr client' \<Rightarrow>
                              (case write_client_to_file (Some fp) (Some client') position w2 of
                                 (success', w3) \<Rightarrow>
                                   (case close_data_file (Some fp) w3 of
                                      (rc, w4) \<Rightarrow>
                                        if success' then (Updated client', w4)
                                        else (Update_write_failed, w4))))))))"

text \<open>
  \<^verbatim>\<open>
  int delete_account(void) {
      unsigned int acct_num = get_account_number("Enter account number to delete (1-100): ");
      if (acct_num == 0) { ... return 0; }
      FILE* file_ptr = open_data_file("rb+");
      if (file_ptr == NULL) { ... return 0; }
      struct client_data client;
      int position = acct_num - 1;
      int success = read_client_from_file(file_ptr, &client, position);
      if (!success || client.acct_num == 0) { ... close_data_file(file_ptr); return 0; }
      display_client(&client);
      if (client.balance != 0.0) {
          printf("WARNING: This account has a balance of $%.2f\n", client.balance);
          printf("Deleting will remove this balance permanently.\n");
      }
      char confirmation;
      if (scanf(" %c", &confirmation) != 1) { ... close_data_file(file_ptr); return 0; }
      clear_input_buffer();
      if (tolower(confirmation) != 'y') { ... close_data_file(file_ptr); return 0; }
      struct client_data empty_client = {0, "", "", 0.0};
      success = write_client_to_file(file_ptr, &empty_client, position);
      close_data_file(file_ptr);
      if (success) { ... return 1; } else { ... return 0; }
  }
  \<close>
  The balance of the record is looked at for the warning only.
\<close>

datatype delete_result =
    Delete_invalid_number
  | Delete_open_failed
  | Delete_not_found
  | Delete_invalid_input
  | Delete_cancelled
  | Delete_write_failed
  | Deleted

record delete_input =
  di_acct :: "u32 option"
  di_confirmation :: "char option"

definition delete_account :: "frame \<Rightarrow> delete_input \<Rightarrow> world \<Rightarrow> delete_result \<times> world" where
  "delete_account fr inp w =
     (let acct = get_account_number (di_acct inp) in
      if acct = 0 then (Delete_invalid_number, w)
      else
        (case open_data_file RBplus w of
           (None, w1) \<Rightarrow> (Delete_open_failed, w1)
         | (Some fp, w1) \<Rightarrow>
             (let position = sint (acct - 1) in
              case read_client_from_file (Some fp) (Some (junk_client fr)) position w1 of
                (success, client, w2) \<Rightarrow>
                  if \<not> success \<or> acct_num (the client) = 0
                  then (Delete_not_found, snd (close_data_file (Some fp) w2))
                  else
                    (case di_confirmation inp of
                       None \<Rightarrow> (Delete_invalid_input, snd (close_data_file (Some fp) w2))
                     | Some confirmation \<Rightarrow>
                         if tolower confirmation \<noteq> CHR ''y''
                         then (Delete_cancelled, snd (close_data_file (Some fp) w2))
                         else
                           (case write_client_to_file (Some fp) (Some empty_client) position w2 of
                              (success', w3) \<Rightarrow>
                                (case close_data_file (Some fp) w3 of
                                   (rc, w4) \<Rightarrow>
                                     if success' then (Deleted, w4)
                                     else (Delete_write_failed, w4)))))))"

section \<open>Observing the store\<close>

text \<open>
  The block of slot \<open>i\<close> in the bytes of the file, the record that a whole block holds, and
  whether a slot holds an account (a whole block with a non-zero account number).
\<close>

definition slot :: "string \<Rightarrow> nat \<Rightarrow> string" where
  "slot d i = take RECORD_SIZE (drop (i * RECORD_SIZE) d)"

definition stored_at :: "world \<Rightarrow> nat \<Rightarrow> client_data option" where
  "stored_at w i =
     (case disk w of
        None \<Rightarrow> None
      | Some d \<Rightarrow> if length (slot d i) = RECORD_SIZE then Some (decode (slot d i)) else None)"

definition occupied :: "world \<Rightarrow> nat \<Rightarrow> bool" where
  "occupied w i \<longleftrightarrow> (case stored_at w i of None \<Rightarrow> False | Some r \<Rightarrow> acct_num r \<noteq> 0)"

text \<open>
  The store that the data model asks for: the file has its hundred slots, and an account
  number that is not zero is the number of its slot plus one.
\<close>

definition store_inv :: "world \<Rightarrow> bool" where
  "store_inv w \<longleftrightarrow>
     (case disk w of
        None \<Rightarrow> False
      | Some d \<Rightarrow>
          length d = 100 * RECORD_SIZE \<and>
          (\<forall>i \<in> {0..<100}. acct_num (decode (slot d i)) \<noteq> 0
              \<longrightarrow> unat (acct_num (decode (slot d i))) = i + 1))"



text \<open>
  What \<open>create_account\<close> makes of its input: whether both names pass \<open>validate_name\<close>, and
  the record that \<open>initialize_client\<close> fills for it.
\<close>

definition names_valid :: "frame \<Rightarrow> create_input \<Rightarrow> bool" where
  "names_valid fr inp \<longleftrightarrow>
     validate_name (Some (get_name_input (junk_last fr) 15 (ci_last inp)))
     \<and> validate_name (Some (get_name_input (junk_first fr) 10 (ci_first inp)))"

definition built_client :: "frame \<Rightarrow> create_input \<Rightarrow> client_data" where
  "built_client fr inp =
     the (initialize_client (Some (junk_client fr)) (get_account_number (ci_acct inp))
            (Some (get_name_input (junk_last fr) 15 (ci_last inp)))
            (Some (get_name_input (junk_first fr) 10 (ci_first inp)))
            (get_balance_input (ci_balance inp)))"

text \<open>The events of a trace that write to the file.\<close>

definition is_write :: "io_event \<Rightarrow> bool" where
  "is_write e \<longleftrightarrow> (case e of EvWrite off \<Rightarrow> True | _ \<Rightarrow> False)"

section \<open>Facts about the representation and the C library\<close>

lemma length_le_bytes [simp]: "length (le_bytes n w) = n"
  by (induction n arbitrary: w) auto

lemma of_char_low_byte: "(of_char (char_of (unat w)) :: 'a::len word) = take_bit 8 w"
proof -
  have "(of_char (char_of (unat w)) :: 'a word) = of_nat (of_char (char_of (unat w)))"
    by (simp only: of_nat_of_char)
  also have "\<dots> = of_nat (take_bit 8 (unat w))"
    by (simp add: take_bit_eq_mod)
  also have "\<dots> = take_bit 8 w"
    by (simp add: take_bit_of_nat [symmetric])
  finally show ?thesis .
qed

lemma le_word_le_bytes: "le_word (le_bytes n w) = take_bit (8 * n) w"
proof (induction n arbitrary: w)
  case 0
  show ?case by simp
next
  case (Suc n)
  have "le_word (le_bytes (Suc n) w)
          = take_bit 8 w OR push_bit 8 (take_bit (8 * n) (drop_bit 8 w))"
    by (simp add: Suc of_char_low_byte)
  also have "\<dots> = take_bit (8 * Suc n) w"
    by (rule bit_eqI) (auto simp add: bit_simps)
  finally show ?case .
qed

lemma le_word_u32 [simp]: "le_word (le_bytes 4 (w :: u32)) = w"
  by (simp add: le_word_le_bytes take_bit_word_eq_self)

lemma le_word_double [simp]: "le_word (le_bytes 8 (w :: double)) = w"
  by (simp add: le_word_le_bytes take_bit_word_eq_self)

lemma le_word_zeros [simp]: "le_word (replicate n NUL) = 0"
  by (induction n) auto

lemma char_of_zero: "char_of (0::nat) = NUL"
  by (simp add: char_of_def)

lemma le_bytes_zero [simp]: "le_bytes n 0 = replicate n NUL"
  by (induction n) (auto simp add: char_of_zero)

lemma length_encode [simp]: "wf_client c \<Longrightarrow> length (encode c) = RECORD_SIZE"
  by (simp add: encode_def wf_client_def)

lemma decode_encode [simp]: "wf_client c \<Longrightarrow> decode (encode c) = c"
  by (simp add: encode_def decode_def wf_client_def)

lemma wf_empty_client [simp]: "wf_client empty_client"
  by (simp add: wf_client_def empty_client_def)

lemma encode_empty_client: "encode empty_client = replicate RECORD_SIZE NUL"
  by (simp add: encode_def empty_client_def replicate_add [symmetric])

lemma decode_zeros: "decode (replicate RECORD_SIZE NUL) = empty_client"
  by (simp add: decode_def empty_client_def)

lemma memset_zero_empty [simp]: "memset_zero = empty_client"
  by (simp add: memset_zero_def decode_zeros)

lemma wf_decode: "length bs = RECORD_SIZE \<Longrightarrow> wf_client (decode bs)"
  by (simp add: decode_def wf_client_def)

lemma length_poke [simp]: "length (poke buf i cs) = length buf"
  by (induction cs arbitrary: buf i) auto

lemma poke_eq:
  "i + length cs \<le> length buf \<Longrightarrow> poke buf i cs = take i buf @ cs @ drop (i + length cs) buf"
proof (induction cs arbitrary: buf i)
  case Nil
  then show ?case by simp
next
  case (Cons c cs)
  then have "poke (buf[i := c]) (Suc i) cs
               = take (Suc i) (buf[i := c]) @ cs @ drop (Suc i + length cs) (buf[i := c])"
    by simp
  also have "\<dots> = take i buf @ (c # cs) @ drop (i + length (c # cs)) buf"
    using Cons.prems by (simp add: take_Suc_conv_app_nth)
  finally show ?case by simp
qed

lemma c_str_no_NUL [simp]: "NUL \<notin> set (c_str s)"
  by (auto simp add: c_str_def dest: set_takeWhileD)

lemma c_str_append_NUL: "NUL \<notin> set xs \<Longrightarrow> c_str (xs @ NUL # ys) = xs"
  by (induction xs) (auto simp add: c_str_def)

lemma c_str_Nil [simp]: "c_str [] = []"
  by (simp add: c_str_def)

lemma c_str_NUL_Cons [simp]: "c_str (NUL # ys) = []"
  by (simp add: c_str_def)

lemma c_str_replicate_NUL [simp]: "c_str (replicate n NUL) = []"
  by (cases n) (simp_all add: c_str_def)

lemma strlen_le_length: "strlen s \<le> length s"
  by (simp add: strlen_def c_str_def length_takeWhile_le)

lemma length_strncpy [simp]: "length (strncpy dst src n) = length dst"
  by (simp add: strncpy_def)

lemma strncpy_eq:
  "n \<le> length dst \<Longrightarrow>
   strncpy dst src n = take n (c_str src) @ replicate (n - length (c_str src)) NUL @ drop n dst"
  by (simp add: strncpy_def poke_eq min_def)

lemma strncpy_terminated:
  assumes "length dst = Suc n"
  shows "(strncpy dst src n)[n := NUL]
           = take n (c_str src) @ NUL # replicate (n - length (c_str src)) NUL"
proof -
  let ?p = "take n (c_str src) @ replicate (n - length (c_str src)) NUL"
  have len: "length ?p = n" by (simp add: min_def)
  define x where "x = dst ! n"
  have d: "drop n dst = [x]"
    using assms Cons_nth_drop_Suc [of n dst] by (simp add: x_def)
  have "strncpy dst src n = ?p @ [x]"
    using assms d by (simp add: strncpy_eq)
  then have "(strncpy dst src n)[n := NUL] = ?p @ [NUL]"
    using len list_update_length [of ?p x "[]" NUL] by simp
  also have "\<dots> = take n (c_str src) @ NUL # replicate (n - length (c_str src)) NUL"
    by (simp add: replicate_append_same)
  finally show ?thesis .
qed

lemma set_take_c_str [simp]: "NUL \<notin> set (take n (c_str s))"
  by (auto dest: in_set_takeD)

lemma c_str_update0 [simp]: "c_str (s[0 := NUL]) = []"
  by (cases s) simp_all

lemma NUL_in_update0: "s \<noteq> [] \<Longrightarrow> NUL \<in> set (s[0 := NUL])"
  by (cases s) simp_all

section \<open>Name validation\<close>

lemma validate_name_loop_iff:
  "validate_name_loop name i len \<longleftrightarrow> (\<forall>j. i \<le> j \<and> j < len \<longrightarrow> name_char (name ! j))"
proof (induction name i len rule: validate_name_loop.induct)
  case (1 name i len)
  show ?case
  proof (cases "i < len")
    case False
    then show ?thesis by (auto simp add: validate_name_loop.simps [of name i len])
  next
    case True
    have split: "(\<forall>j. i \<le> j \<and> j < len \<longrightarrow> name_char (name ! j))
        \<longleftrightarrow> name_char (name ! i) \<and> (\<forall>j. Suc i \<le> j \<and> j < len \<longrightarrow> name_char (name ! j))"
    proof (intro iffI conjI allI impI)
      assume a: "\<forall>j. i \<le> j \<and> j < len \<longrightarrow> name_char (name ! j)"
      from a True show "name_char (name ! i)" by simp
      fix j assume "Suc i \<le> j \<and> j < len"
      with a show "name_char (name ! j)" by simp
    next
      fix j
      assume b: "name_char (name ! i) \<and> (\<forall>j. Suc i \<le> j \<and> j < len \<longrightarrow> name_char (name ! j))"
        and j: "i \<le> j \<and> j < len"
      show "name_char (name ! j)"
      proof (cases "j = i")
        case True
        with b show ?thesis by simp
      next
        case False
        with j have "Suc i \<le> j \<and> j < len" by simp
        with b show ?thesis by blast
      qed
    qed
    show ?thesis
    proof (cases "name_char (name ! i)")
      case False
      with True split show ?thesis
        by (simp add: validate_name_loop.simps [of name i len] name_char_def Let_def)
    next
      case ok: True
      then have nb: "\<not> (\<not> isalpha (name ! i) \<and> name ! i \<noteq> CHR '' '' \<and> name ! i \<noteq> CHR ''-''
                      \<and> name ! i \<noteq> CHR 0x27)"
        by (auto simp add: name_char_def)
      have "validate_name_loop name i len = validate_name_loop name (Suc i) len"
        using True nb by (subst validate_name_loop.simps) (auto simp add: Let_def)
      also have "\<dots> \<longleftrightarrow> (\<forall>j. Suc i \<le> j \<and> j < len \<longrightarrow> name_char (name ! j))"
        using "1.IH" [OF True refl nb] .
      finally show ?thesis using split ok by simp
    qed
  qed
qed

lemma c_str_nth: "j < strlen s \<Longrightarrow> c_str s ! j = s ! j"
  by (simp add: strlen_def c_str_def takeWhile_nth)

lemma all_c_str_iff: "(\<forall>c\<in>set (c_str s). P c) \<longleftrightarrow> (\<forall>j. j < strlen s \<longrightarrow> P (s ! j))"
  by (simp add: all_set_conv_all_nth c_str_nth flip: strlen_def)

lemma validate_name_Some:
  "validate_name (Some s) \<longleftrightarrow> c_str s \<noteq> [] \<and> (\<forall>c\<in>set (c_str s). name_char c)"
  by (auto simp add: validate_name_def Let_def validate_name_loop_iff all_c_str_iff strlen_def)


text \<open>
  Claim C3. \<open>validate_name(s)\<close> returns false if and only if the string \<open>s\<close> is empty or has a
  character outside letters, space, hyphen and apostrophe; on every non-empty string of
  such characters alone it returns true. The string of a buffer is \<open>c_str\<close> of it; a \<open>NULL\<close>
  pointer is refused as well.
\<close>

theorem validate_name_iff:
  "(validate_name (Some s) = False \<longleftrightarrow> c_str s = [] \<or> (\<exists>c\<in>set (c_str s). \<not> name_char c))
   \<and> (c_str s \<noteq> [] \<and> (\<forall>c\<in>set (c_str s). name_char c) \<longrightarrow> validate_name (Some s) = True)
   \<and> validate_name None = False"
  by (auto simp add: validate_name_Some) (simp add: validate_name_def)

theorem validate_name_iff_witness:
  "validate_name (Some ''Smith'') = True \<and> validate_name (Some ''O'Neil-Mc Cay'') = True
   \<and> validate_name (Some '''') = False \<and> validate_name (Some ''123'') = False
   \<and> validate_name (Some ''Smith2'') = False"
  using validate_name_iff [of "''Smith''"] validate_name_iff [of "''O'Neil-Mc Cay''"]
    validate_name_iff [of "''''"] validate_name_iff [of "''123''"]
    validate_name_iff [of "''Smith2''"]
  by (simp add: c_str_def name_char_def isalpha_def)

section \<open>Filling a record\<close>

lemma initialize_client_filled:
  assumes "wf_client c"
  shows "\<exists>r. initialize_client (Some c) acct lname fname bal = Some r
           \<and> wf_client r \<and> acct_num r = acct \<and> balance r = bal
           \<and> NUL \<in> set (last_name r) \<and> NUL \<in> set (first_name r)
           \<and> strlen (last_name r) \<le> 14 \<and> strlen (first_name r) \<le> 9
           \<and> c_str (last_name r) = (case lname of None \<Rightarrow> [] | Some s \<Rightarrow> take 14 (c_str s))
           \<and> c_str (first_name r) = (case fname of None \<Rightarrow> [] | Some s \<Rightarrow> take 9 (c_str s))"
proof -
  from assms have l: "length (last_name c) = Suc 14" and f: "length (first_name c) = Suc 9"
    by (simp_all add: wf_client_def)
  from l f have ne: "last_name c \<noteq> []" "first_name c \<noteq> []" by auto
  show ?thesis
    using l f
    by (cases lname; cases fname)
       (simp_all add: initialize_client_def wf_client_def strlen_def min_def
          strncpy_terminated [OF l] strncpy_terminated [OF f] c_str_append_NUL
          NUL_in_update0 [OF ne(1)] NUL_in_update0 [OF ne(2)])
qed

section \<open>Blocks of the file, account numbers and positions\<close>

lemma length_pwrite: "length (pwrite d off bs) = max (length d) (off + length bs)"
  by (simp add: pwrite_def min_def max_def)

lemma pwrite_front: "length (take off d @ replicate (off - length d) NUL) = off"
  by (simp add: min_def)

lemma slot_pwrite_same:
  "length bs = RECORD_SIZE \<Longrightarrow> slot (pwrite d (i * RECORD_SIZE) bs) i = bs"
proof -
  assume l: "length bs = RECORD_SIZE"
  let ?A = "take (i * RECORD_SIZE) d @ replicate (i * RECORD_SIZE - length d) NUL"
  have "pwrite d (i * RECORD_SIZE) bs = ?A @ bs @ drop (i * RECORD_SIZE + length bs) d"
    by (simp add: pwrite_def)
  moreover have "length ?A = i * RECORD_SIZE" by (rule pwrite_front)
  ultimately show ?thesis using l by (simp add: slot_def)
qed

lemma pwrite_inside:
  "off + length bs \<le> length d \<Longrightarrow> pwrite d off bs = take off d @ bs @ drop (off + length bs) d"
  by (simp add: pwrite_def)

lemma slot_pwrite_other:
  assumes "i * RECORD_SIZE + RECORD_SIZE \<le> length d" and "i \<noteq> j"
    and "length bs = RECORD_SIZE"
  shows "slot (pwrite d (i * RECORD_SIZE) bs) j = slot d j"
proof (cases "j < i")
  case True
  then have le: "j * RECORD_SIZE + RECORD_SIZE \<le> i * RECORD_SIZE" by simp
  have "slot (pwrite d (i * RECORD_SIZE) bs) j
          = take RECORD_SIZE (drop (j * RECORD_SIZE) (take (i * RECORD_SIZE) d))"
    using assms le by (simp add: slot_def pwrite_inside)
  also have "\<dots> = slot d j"
    using le by (simp add: slot_def drop_take min_def)
  finally show ?thesis .
next
  case False
  with assms(2) have ge: "i * RECORD_SIZE + RECORD_SIZE \<le> j * RECORD_SIZE" by simp
  then show ?thesis
    using assms by (simp add: slot_def pwrite_inside min_def)
qed

lemma length_slot_le: "length (slot d i) \<le> RECORD_SIZE"
  by (simp add: slot_def)

lemma length_slot_full:
  "length (slot d i) = RECORD_SIZE \<longleftrightarrow> i * RECORD_SIZE + RECORD_SIZE \<le> length d"
  by (auto simp add: slot_def min_def)

lemma slot_zeros:
  "i * RECORD_SIZE + RECORD_SIZE \<le> n \<Longrightarrow> slot (replicate n NUL) i = replicate RECORD_SIZE NUL"
  by (simp add: slot_def min_def)

lemma validate_account_number_unat:
  "validate_account_number acct \<longleftrightarrow> 1 \<le> unat acct \<and> unat acct \<le> 100"
  by (simp add: validate_account_number_def word_le_nat_alt)

lemma position_of_acct:
  assumes "validate_account_number acct"
  shows "sint (acct - 1) = int (unat acct) - 1"
proof -
  define n where "n = unat acct"
  from assms have r: "1 \<le> n" "n \<le> 100"
    by (simp_all add: validate_account_number_unat n_def)
  have u: "unat (acct - 1) = n - 1"
    using r unfolding n_def by (simp add: unat_sub word_le_nat_alt)
  define k where "k = uint (acct - 1)"
  have "k = int (unat (acct - 1))"
    unfolding k_def by (simp only: uint_nat)
  then have ui: "k = int n - 1"
    using r by (simp only: u)
  have lo: "- (2 ^ 31) \<le> k" and hi: "k < 2 ^ 31"
    using r unfolding ui by simp_all
  have "sint (acct - 1) = signed_take_bit 31 k"
    unfolding k_def by (simp add: sint_uint)
  also have "\<dots> = k"
    using lo hi by (rule signed_take_bit_int_eq_self)
  finally show ?thesis unfolding ui n_def .
qed

lemma get_account_number_cases:
  "get_account_number scanned = 0 \<or> validate_account_number (get_account_number scanned)"
  by (simp add: get_account_number_def split: option.splits)

section \<open>Writing and reading a slot\<close>

lemma nat_position: "0 \<le> p \<Longrightarrow> nat (p * 40) = nat p * 40"
  by (simp add: nat_mult_distrib)

lemma write_client_to_file_run:
  assumes "0 \<le> p" "p < MAX_ACCOUNTS" "disk w = Some d" "writable fp"
  shows "write_client_to_file (Some fp) (Some c) p w =
           (True, \<lparr>disk = Some (pwrite d (nat p * RECORD_SIZE) (encode c)),
                    stream_pos = nat p * RECORD_SIZE + RECORD_SIZE,
                    io_log = io_log w @ [EvSeek (nat p * RECORD_SIZE), EvWrite (nat p * RECORD_SIZE)]\<rparr>)"
  using assms
  by (simp add: write_client_to_file_def fseek_def fwrite_record_def emit_def nat_position)

lemma write_client_to_file_v2_run:
  assumes "0 \<le> p" "p < MAX_ACCOUNTS" "disk w = Some d" "writable fp"
  shows "write_client_to_file_v2 (Some fp) (Some c) p w =
           (True, \<lparr>disk = Some (pwrite d (nat p * RECORD_SIZE) (encode c)),
                    stream_pos = nat p * RECORD_SIZE + RECORD_SIZE,
                    io_log = io_log w @ [EvSeek (nat p * RECORD_SIZE), EvWrite (nat p * RECORD_SIZE)]\<rparr>)"
  using assms
  by (simp add: write_client_to_file_v2_def fseek_def fwrite_record_def emit_def nat_position)

lemma read_client_from_file_run:
  assumes "0 \<le> p" "p < MAX_ACCOUNTS" "disk w = Some d" "readable fp"
  shows "read_client_from_file (Some fp) (Some c) p w =
           (length (slot d (nat p)) = RECORD_SIZE,
            Some (if length (slot d (nat p)) = RECORD_SIZE then decode (slot d (nat p))
                  else decode (poke (encode c) 0 (slot d (nat p)))),
            \<lparr>disk = Some d, stream_pos = nat p * RECORD_SIZE + length (slot d (nat p)),
               io_log = io_log w @ [EvSeek (nat p * RECORD_SIZE), EvRead (nat p * RECORD_SIZE)]\<rparr>)"
  using assms
  by (simp add: read_client_from_file_def fseek_def fread_record_def emit_def nat_position
      slot_def Let_def)

lemma read_client_from_file_v2_run:
  assumes "0 \<le> p" "p < MAX_ACCOUNTS" "disk w = Some d" "readable fp"
  shows "read_client_from_file_v2 (Some fp) (Some c) p w =
           (length (slot d (nat p)) = RECORD_SIZE,
            Some (if length (slot d (nat p)) = RECORD_SIZE then decode (slot d (nat p))
                  else empty_client),
            \<lparr>disk = Some d, stream_pos = nat p * RECORD_SIZE + length (slot d (nat p)),
               io_log = io_log w @ [EvSeek (nat p * RECORD_SIZE), EvRead (nat p * RECORD_SIZE)]\<rparr>)"
  using assms
  by (simp add: read_client_from_file_v2_def fseek_def fread_record_def emit_def nat_position
      slot_def Let_def)

lemma read_out_of_range:
  "p < 0 \<or> p \<ge> MAX_ACCOUNTS \<Longrightarrow>
     read_client_from_file fp c p w = (False, c, w)
     \<and> read_client_from_file_v2 fp c p w = (False, c, w)"
  by (auto simp add: read_client_from_file_def read_client_from_file_v2_def
      split: option.splits)


text \<open>
  Claim C2. Decoding the encoding of a record gives the record back; and a record written
  to a slot of the open data file is what a read of the same slot returns, account number,
  both names and balance, in \<^verbatim>\<open>version2.c\<close> and in \<^verbatim>\<open>version3.c\<close>. The record has the array
  sizes of its type, the slot is one of 0 to 99, and the stream is open for reading and
  writing (\<open>"rb+"\<close> or \<open>"wb+"\<close>).
\<close>

theorem write_then_read_round_trip:
  assumes "wf_client r" and "0 \<le> p" and "p < MAX_ACCOUNTS"
    and "disk w \<noteq> None" and "readable fp" and "writable fp"
  shows "decode (encode r) = r
     \<and> (\<exists>w1 w2. write_client_to_file_v2 (Some fp) (Some r) p w = (True, w1)
            \<and> read_client_from_file_v2 (Some fp) (Some c) p w1 = (True, Some r, w2))
     \<and> (\<exists>w1 w2. write_client_to_file (Some fp) (Some r) p w = (True, w1)
            \<and> read_client_from_file (Some fp) (Some c) p w1 = (True, Some r, w2))"
proof -
  from assms(4) obtain d where d: "disk w = Some d" by auto
  have s: "slot (pwrite d (nat p * RECORD_SIZE) (encode r)) (nat p) = encode r"
    using assms(1) by (simp add: slot_pwrite_same)
  show ?thesis
    using assms(1) s
    by (simp add: write_client_to_file_run [OF assms(2,3) d assms(6)]
        write_client_to_file_v2_run [OF assms(2,3) d assms(6)]
        read_client_from_file_run [OF assms(2,3) _ assms(5)]
        read_client_from_file_v2_run [OF assms(2,3) _ assms(5)])
qed

theorem write_then_read_round_trip_witness:
  "decode (encode \<lparr>acct_num = 88, last_name = ''ReadTest'' @ replicate 7 NUL,
                    first_name = ''User'' @ replicate 6 NUL, balance = 0x40815C6666666666\<rparr>)
     = \<lparr>acct_num = 88, last_name = ''ReadTest'' @ replicate 7 NUL,
         first_name = ''User'' @ replicate 6 NUL, balance = 0x40815C6666666666\<rparr>
   \<and> (\<exists>w1 w2.
         write_client_to_file_v2 (Some RBplus)
           (Some \<lparr>acct_num = 88, last_name = ''ReadTest'' @ replicate 7 NUL,
                   first_name = ''User'' @ replicate 6 NUL, balance = 0x40815C6666666666\<rparr>)
           20 \<lparr>disk = Some [], stream_pos = 0, io_log = []\<rparr> = (True, w1)
         \<and> read_client_from_file_v2 (Some RBplus) (Some empty_client) 20 w1
             = (True,
                Some \<lparr>acct_num = 88, last_name = ''ReadTest'' @ replicate 7 NUL,
                       first_name = ''User'' @ replicate 6 NUL, balance = 0x40815C6666666666\<rparr>,
                w2))
   \<and> (\<exists>w1 w2.
         write_client_to_file (Some RBplus)
           (Some \<lparr>acct_num = 88, last_name = ''ReadTest'' @ replicate 7 NUL,
                   first_name = ''User'' @ replicate 6 NUL, balance = 0x40815C6666666666\<rparr>)
           20 \<lparr>disk = Some [], stream_pos = 0, io_log = []\<rparr> = (True, w1)
         \<and> read_client_from_file (Some RBplus) (Some empty_client) 20 w1
             = (True,
                Some \<lparr>acct_num = 88, last_name = ''ReadTest'' @ replicate 7 NUL,
                       first_name = ''User'' @ replicate 6 NUL, balance = 0x40815C6666666666\<rparr>,
                w2))"
  using write_then_read_round_trip
    [of "\<lparr>acct_num = 88, last_name = ''ReadTest'' @ replicate 7 NUL,
           first_name = ''User'' @ replicate 6 NUL, balance = 0x40815C6666666666\<rparr>"
        20 "\<lparr>disk = Some [], stream_pos = 0, io_log = []\<rparr>" RBplus empty_client]
  by (simp add: wf_client_def readable_def writable_def)

text \<open>
  Claim C5, as \<^verbatim>\<open>version3.c\<close> refutes it. A read of slot 0 of a file of length zero comes up
  short: \<open>read_client_from_file\<close> of \<^verbatim>\<open>version3.c\<close> returns 0 and the record behind \<open>client\<close> is
  what it was before the call, account number 7, not the empty record.
\<close>

theorem read_short_not_reset_counterexample:
  "read_client_from_file (Some RB)
     (Some \<lparr>acct_num = 7, last_name = replicate 15 (CHR ''x''),
             first_name = replicate 10 (CHR ''y''), balance = 1\<rparr>)
     0 \<lparr>disk = Some [], stream_pos = 0, io_log = []\<rparr>
   = (False,
      Some \<lparr>acct_num = 7, last_name = replicate 15 (CHR ''x''),
             first_name = replicate 10 (CHR ''y''), balance = 1\<rparr>,
      \<lparr>disk = Some [], stream_pos = 0, io_log = [EvSeek 0, EvRead 0]\<rparr>)"
  by (simp add: read_client_from_file_def fseek_def fread_record_def emit_def readable_def
      wf_client_def)


text \<open>
  Claim C5, as the code has it. A slot index outside 0 to 99 is refused by both versions
  of \<open>read_client_from_file\<close> with no stdio call: the world and the record behind \<open>client\<close>
  are unchanged. When the slot index is in range and the file ends inside or before the
  block of the slot, the read of \<^verbatim>\<open>version2.c\<close> returns 0 and leaves the empty record behind
  \<open>client\<close>; the read of \<^verbatim>\<open>version3.c\<close> returns 0 as well and does not reset the record: the
  bytes that the file still had are stored over the front of it, and it is unchanged when
  the file ends at or before the start of the block. Neither changes the file.
\<close>

theorem read_rejects_and_short_reads:
  "(p < 0 \<or> p \<ge> MAX_ACCOUNTS \<longrightarrow>
      read_client_from_file_v2 fp c p w = (False, c, w)
      \<and> read_client_from_file fp c p w = (False, c, w))
   \<and> (0 \<le> p \<and> p < MAX_ACCOUNTS \<and> readable f \<and> disk w = Some d
        \<and> length d < nat p * RECORD_SIZE + RECORD_SIZE \<longrightarrow>
      (\<exists>w'. read_client_from_file_v2 (Some f) (Some r) p w = (False, Some empty_client, w')
            \<and> disk w' = disk w)
      \<and> (\<exists>w'. read_client_from_file (Some f) (Some r) p w
                 = (False, Some (decode (poke (encode r) 0 (slot d (nat p)))), w')
            \<and> disk w' = disk w)
      \<and> (wf_client r \<and> length d \<le> nat p * RECORD_SIZE \<longrightarrow>
            (\<exists>w'. read_client_from_file (Some f) (Some r) p w = (False, Some r, w'))))"
proof (intro conjI impI)
  assume "p < 0 \<or> p \<ge> MAX_ACCOUNTS"
  then show "read_client_from_file_v2 fp c p w = (False, c, w)"
    and "read_client_from_file fp c p w = (False, c, w)"
    by (simp_all add: read_out_of_range)
next
  assume a: "0 \<le> p \<and> p < MAX_ACCOUNTS \<and> readable f \<and> disk w = Some d
        \<and> length d < nat p * RECORD_SIZE + RECORD_SIZE"
  then have short: "length (slot d (nat p)) \<noteq> RECORD_SIZE"
    by (simp add: length_slot_full)
  from a short
  show "\<exists>w'. read_client_from_file_v2 (Some f) (Some r) p w = (False, Some empty_client, w')
            \<and> disk w' = disk w"
    by (simp add: read_client_from_file_v2_run)
  from a short
  show "\<exists>w'. read_client_from_file (Some f) (Some r) p w
                 = (False, Some (decode (poke (encode r) 0 (slot d (nat p)))), w')
            \<and> disk w' = disk w"
    by (simp add: read_client_from_file_run)
  assume b: "wf_client r \<and> length d \<le> nat p * RECORD_SIZE"
  then have "slot d (nat p) = []" by (simp add: slot_def)
  with a b short
  show "\<exists>w'. read_client_from_file (Some f) (Some r) p w = (False, Some r, w')"
    by (simp add: read_client_from_file_run)
qed

theorem read_rejects_and_short_reads_witness:
  "read_client_from_file_v2 (Some RB) (Some empty_client) 100
       \<lparr>disk = Some (replicate 100 (CHR ''z'')), stream_pos = 0, io_log = []\<rparr>
     = (False, Some empty_client,
        \<lparr>disk = Some (replicate 100 (CHR ''z'')), stream_pos = 0, io_log = []\<rparr>)
   \<and> read_client_from_file (Some RB) (Some empty_client) 100
       \<lparr>disk = Some (replicate 100 (CHR ''z'')), stream_pos = 0, io_log = []\<rparr>
     = (False, Some empty_client,
        \<lparr>disk = Some (replicate 100 (CHR ''z'')), stream_pos = 0, io_log = []\<rparr>)
   \<and> (\<exists>w'. read_client_from_file_v2 (Some RB)
          (Some \<lparr>acct_num = 7, last_name = replicate 15 (CHR ''x''),
                  first_name = replicate 10 (CHR ''y''), balance = 1\<rparr>)
          3 \<lparr>disk = Some (replicate 100 (CHR ''z'')), stream_pos = 0, io_log = []\<rparr>
        = (False, Some empty_client, w'))
   \<and> (\<exists>w'. read_client_from_file (Some RB)
          (Some \<lparr>acct_num = 7, last_name = replicate 15 (CHR ''x''),
                  first_name = replicate 10 (CHR ''y''), balance = 1\<rparr>)
          3 \<lparr>disk = Some (replicate 100 (CHR ''z'')), stream_pos = 0, io_log = []\<rparr>
        = (False, Some \<lparr>acct_num = 7, last_name = replicate 15 (CHR ''x''),
                  first_name = replicate 10 (CHR ''y''), balance = 1\<rparr>, w'))"
proof -
  let ?w = "\<lparr>disk = Some (replicate 100 (CHR ''z'')), stream_pos = 0, io_log = []\<rparr>"
  let ?r = "\<lparr>acct_num = 7, last_name = replicate 15 (CHR ''x''),
              first_name = replicate 10 (CHR ''y''), balance = 1\<rparr>"
  note a = read_rejects_and_short_reads
    [of 100 "Some RB" "Some empty_client" ?w RB "replicate 100 (CHR ''z'')" ?r]
  note b = read_rejects_and_short_reads
    [of 3 "Some RB" "Some empty_client" ?w RB "replicate 100 (CHR ''z'')" ?r]
  from a have 1: "read_client_from_file_v2 (Some RB) (Some empty_client) 100 ?w
     = (False, Some empty_client, ?w)
   \<and> read_client_from_file (Some RB) (Some empty_client) 100 ?w
     = (False, Some empty_client, ?w)"
    by simp
  from b have 2: "\<exists>w'. read_client_from_file_v2 (Some RB) (Some ?r) 3 ?w
        = (False, Some empty_client, w')"
    by (auto simp add: readable_def)
  from b have 3: "\<exists>w'. read_client_from_file (Some RB) (Some ?r) 3 ?w = (False, Some ?r, w')"
    by (simp add: readable_def wf_client_def)
  from 1 2 3 show ?thesis by (intro conjI) (rule conjunct1, assumption, rule conjunct2, assumption, assumption+)
qed

section \<open>Creating the data file\<close>

lemma pwrite_at_end: "pwrite d (length d) bs = d @ bs"
  by (simp add: pwrite_def)

lemma fwrite_empty_at_end:
  assumes "disk w = Some d" "stream_pos w = length d" "writable fp"
  shows "fwrite_record empty_client fp w =
           (1, \<lparr>disk = Some (d @ replicate RECORD_SIZE NUL),
                 stream_pos = length d + RECORD_SIZE,
                 io_log = io_log w @ [EvWrite (length d)]\<rparr>)"
  using assms by (simp add: fwrite_record_def emit_def pwrite_at_end encode_empty_client)

lemma writes_shift:
  "EvWrite a # map (\<lambda>k. EvWrite (a + RECORD_SIZE + k * RECORD_SIZE)) [0..<n]
     = map (\<lambda>k. EvWrite (a + k * RECORD_SIZE)) [0..<Suc n]"
proof -
  have "map (\<lambda>k. EvWrite (a + k * RECORD_SIZE)) [0..<Suc n]
          = EvWrite a # map (\<lambda>k. EvWrite (a + Suc k * RECORD_SIZE)) [0..<n]"
    by (simp only: map_upt_Suc) simp
  then show ?thesis by (simp add: add.assoc)
qed

lemma initialize_loop_v2_run:
  assumes "disk w = Some d" "stream_pos w = length d" "writable fp" "0 \<le> i" "i \<le> MAX_ACCOUNTS"
  shows "initialize_loop_v2 fp i w =
           \<lparr>disk = Some (d @ replicate (nat (MAX_ACCOUNTS - i) * RECORD_SIZE) NUL),
              stream_pos = length d + nat (MAX_ACCOUNTS - i) * RECORD_SIZE,
              io_log = io_log w
                 @ map (\<lambda>k. EvWrite (length d + k * RECORD_SIZE)) [0..<nat (MAX_ACCOUNTS - i)]\<rparr>"
  using assms
proof (induction fp i w arbitrary: d rule: initialize_loop_v2.induct)
  case (1 fp i w)
  show ?case
  proof (cases "i < MAX_ACCOUNTS")
    case False
    with "1.prems" have "i = MAX_ACCOUNTS" by simp
    with "1.prems" show ?thesis
      by (cases w) (simp add: initialize_loop_v2.simps [of fp MAX_ACCOUNTS])
  next
    case True
    let ?w' = "\<lparr>disk = Some (d @ replicate RECORD_SIZE NUL),
                 stream_pos = length d + RECORD_SIZE,
                 io_log = io_log w @ [EvWrite (length d)]\<rparr>"
    have fw: "fwrite_record empty_client fp w = (1, ?w')"
      using "1.prems" by (simp add: fwrite_empty_at_end)
    have n: "nat (MAX_ACCOUNTS - i) = Suc (nat (MAX_ACCOUNTS - (i + 1)))"
      using True "1.prems" by simp
    have "initialize_loop_v2 fp i w = initialize_loop_v2 fp (i + 1) ?w'"
      using True fw by (subst initialize_loop_v2.simps) simp
    also have "\<dots> = \<lparr>disk = Some ((d @ replicate RECORD_SIZE NUL)
                            @ replicate (nat (MAX_ACCOUNTS - (i + 1)) * RECORD_SIZE) NUL),
              stream_pos = length (d @ replicate RECORD_SIZE NUL)
                 + nat (MAX_ACCOUNTS - (i + 1)) * RECORD_SIZE,
              io_log = io_log ?w'
                 @ map (\<lambda>k. EvWrite (length (d @ replicate RECORD_SIZE NUL) + k * RECORD_SIZE))
                     [0..<nat (MAX_ACCOUNTS - (i + 1))]\<rparr>"
      using True "1.prems"
      by (intro "1.IH" [OF True fw [symmetric]]) simp_all
    also have "\<dots> = \<lparr>disk = Some (d @ replicate (nat (MAX_ACCOUNTS - i) * RECORD_SIZE) NUL),
              stream_pos = length d + nat (MAX_ACCOUNTS - i) * RECORD_SIZE,
              io_log = io_log w
                 @ map (\<lambda>k. EvWrite (length d + k * RECORD_SIZE)) [0..<nat (MAX_ACCOUNTS - i)]\<rparr>"
      unfolding n
      by (simp add: replicate_add [symmetric] writes_shift [symmetric] del: upt_Suc)
    finally show ?thesis .
  qed
qed

lemma initialize_loop_run:
  assumes "disk w = Some d" "stream_pos w = length d" "writable fp" "0 \<le> i" "i \<le> MAX_ACCOUNTS"
  shows "initialize_loop fp i w =
           \<lparr>disk = Some (d @ replicate (nat (MAX_ACCOUNTS - i) * RECORD_SIZE) NUL),
              stream_pos = length d + nat (MAX_ACCOUNTS - i) * RECORD_SIZE,
              io_log = io_log w
                 @ map (\<lambda>k. EvWrite (length d + k * RECORD_SIZE)) [0..<nat (MAX_ACCOUNTS - i)]\<rparr>"
  using assms
proof (induction fp i w arbitrary: d rule: initialize_loop.induct)
  case (1 fp i w)
  show ?case
  proof (cases "i < MAX_ACCOUNTS")
    case False
    with "1.prems" have "i = MAX_ACCOUNTS" by simp
    with "1.prems" show ?thesis
      by (cases w) (simp add: initialize_loop.simps [of fp MAX_ACCOUNTS])
  next
    case True
    let ?w' = "\<lparr>disk = Some (d @ replicate RECORD_SIZE NUL),
                 stream_pos = length d + RECORD_SIZE,
                 io_log = io_log w @ [EvWrite (length d)]\<rparr>"
    have fw: "snd (fwrite_record empty_client fp w) = ?w'"
      using "1.prems" by (simp add: fwrite_empty_at_end)
    have n: "nat (MAX_ACCOUNTS - i) = Suc (nat (MAX_ACCOUNTS - (i + 1)))"
      using True "1.prems" by simp
    have "initialize_loop fp i w = initialize_loop fp (i + 1) ?w'"
      using True fw by (subst initialize_loop.simps) simp
    also have "\<dots> = \<lparr>disk = Some ((d @ replicate RECORD_SIZE NUL)
                            @ replicate (nat (MAX_ACCOUNTS - (i + 1)) * RECORD_SIZE) NUL),
              stream_pos = length (d @ replicate RECORD_SIZE NUL)
                 + nat (MAX_ACCOUNTS - (i + 1)) * RECORD_SIZE,
              io_log = io_log ?w'
                 @ map (\<lambda>k. EvWrite (length (d @ replicate RECORD_SIZE NUL) + k * RECORD_SIZE))
                     [0..<nat (MAX_ACCOUNTS - (i + 1))]\<rparr>"
      using True "1.prems" "1.IH" [OF True, of "d @ replicate RECORD_SIZE NUL"]
      by (simp add: fw)
    also have "\<dots> = \<lparr>disk = Some (d @ replicate (nat (MAX_ACCOUNTS - i) * RECORD_SIZE) NUL),
              stream_pos = length d + nat (MAX_ACCOUNTS - i) * RECORD_SIZE,
              io_log = io_log w
                 @ map (\<lambda>k. EvWrite (length d + k * RECORD_SIZE)) [0..<nat (MAX_ACCOUNTS - i)]\<rparr>"
      unfolding n
      by (simp add: replicate_add [symmetric] writes_shift [symmetric] del: upt_Suc)
    finally show ?thesis .
  qed
qed

lemma initialize_data_file_run:
  "initialize_data_file w =
     \<lparr>disk = Some (replicate (100 * RECORD_SIZE) NUL), stream_pos = 100 * RECORD_SIZE,
        io_log = io_log w @ [EvOpen WB] @ map (\<lambda>k. EvWrite (k * RECORD_SIZE)) [0..<100] @ [EvClose]\<rparr>"
proof -
  let ?w1 = "\<lparr>disk = Some [], stream_pos = 0, io_log = io_log w @ [EvOpen WB]\<rparr>"
  have o: "fopen WB w = (Some WB, ?w1)"
    by (simp add: fopen_def emit_def)
  have "initialize_loop_v2 WB 0 ?w1 =
          \<lparr>disk = Some ([] @ replicate (nat (MAX_ACCOUNTS - 0) * RECORD_SIZE) NUL),
              stream_pos = length ([] :: string) + nat (MAX_ACCOUNTS - 0) * RECORD_SIZE,
              io_log = io_log ?w1
                 @ map (\<lambda>k. EvWrite (length ([] :: string) + k * RECORD_SIZE)) [0..<nat (MAX_ACCOUNTS - 0)]\<rparr>"
    by (rule initialize_loop_v2_run) (simp_all add: writable_def)
  then show ?thesis
    by (simp add: initialize_data_file_def o fclose_def emit_def del: upt_Suc)
qed

lemma initialize_data_file_if_needed_run:
  "disk w = None \<Longrightarrow> initialize_data_file_if_needed w =
     \<lparr>disk = Some (replicate (100 * RECORD_SIZE) NUL), stream_pos = 100 * RECORD_SIZE,
        io_log = io_log w @ [EvOpen RB, EvOpen WB]
           @ map (\<lambda>k. EvWrite (k * RECORD_SIZE)) [0..<100] @ [EvClose]\<rparr>"
proof -
  assume n: "disk w = None"
  let ?w0 = "w\<lparr>io_log := io_log w @ [EvOpen RB]\<rparr>"
  let ?w1 = "\<lparr>disk = Some [], stream_pos = 0, io_log = io_log w @ [EvOpen RB, EvOpen WB]\<rparr>"
  have o0: "fopen RB w = (None, ?w0)"
    using n by (simp add: fopen_def emit_def)
  have o: "fopen WB ?w0 = (Some WB, ?w1)"
    by (cases w) (simp add: fopen_def emit_def)
  have "initialize_loop WB 0 ?w1 =
          \<lparr>disk = Some ([] @ replicate (nat (MAX_ACCOUNTS - 0) * RECORD_SIZE) NUL),
              stream_pos = length ([] :: string) + nat (MAX_ACCOUNTS - 0) * RECORD_SIZE,
              io_log = io_log ?w1
                 @ map (\<lambda>k. EvWrite (length ([] :: string) + k * RECORD_SIZE)) [0..<nat (MAX_ACCOUNTS - 0)]\<rparr>"
    by (rule initialize_loop_run) (simp_all add: writable_def)
  then show ?thesis
    by (simp add: initialize_data_file_if_needed_def o0 o fclose_def emit_def
        del: upt_Suc)
qed

lemma initialize_data_file_if_needed_present:
  "disk w \<noteq> None \<Longrightarrow> disk (initialize_data_file_if_needed w) = disk w"
  by (auto simp add: initialize_data_file_if_needed_def fopen_def fclose_def emit_def)

lemma concat_replicate_zeros:
  "concat (replicate n (replicate m NUL)) = replicate (n * m) NUL"
  by (induction n) (simp_all add: replicate_add)

lemma stored_at_zero_disk:
  "disk w = Some (replicate (100 * RECORD_SIZE) NUL) \<Longrightarrow> i < 100 \<Longrightarrow>
     stored_at w i = Some empty_client"
  by (simp add: stored_at_def slot_zeros decode_zeros )

lemma stored_at_beyond:
  "disk w = Some d \<Longrightarrow> length d \<le> 100 * RECORD_SIZE \<Longrightarrow> stored_at w 100 = None"
  by (simp add: stored_at_def length_slot_full)

lemma position_facts:
  assumes "validate_account_number acct"
  shows "0 \<le> sint (acct - 1)" and "sint (acct - 1) < MAX_ACCOUNTS"
    and "nat (sint (acct - 1)) = unat acct - 1"
proof -
  define n where "n = unat acct"
  from assms have r: "1 \<le> n" "n \<le> 100"
    by (simp_all add: validate_account_number_unat n_def)
  have s: "sint (acct - 1) = int n - 1"
    unfolding n_def by (rule position_of_acct [OF assms])
  show "0 \<le> sint (acct - 1)" and "sint (acct - 1) < MAX_ACCOUNTS"
    and "nat (sint (acct - 1)) = unat acct - 1"
    using r unfolding s n_def [symmetric] by simp_all
qed

lemma account_exists_invalid:
  "\<not> validate_account_number acct \<Longrightarrow> account_exists junk acct w = (False, w)"
  by (simp add: account_exists_def)

lemma account_exists_missing:
  "validate_account_number acct \<Longrightarrow> disk w = None \<Longrightarrow>
     account_exists junk acct w = (False, emit (EvOpen RB) w)"
  by (simp add: account_exists_def open_data_file_def fopen_def)

lemma account_exists_run:
  assumes "validate_account_number acct" "disk w = Some d"
  shows "account_exists junk acct w =
           (occupied w (unat acct - 1),
            \<lparr>disk = Some d,
               stream_pos = (unat acct - 1) * RECORD_SIZE + length (slot d (unat acct - 1)),
               io_log = io_log w @ [EvOpen RB, EvSeek ((unat acct - 1) * RECORD_SIZE),
                                    EvRead ((unat acct - 1) * RECORD_SIZE), EvClose]\<rparr>)"
proof -
  let ?p = "sint (acct - 1)"
  note p = position_facts [OF assms(1)]
  let ?w1 = "\<lparr>disk = Some d, stream_pos = 0, io_log = io_log w @ [EvOpen RB]\<rparr>"
  have o: "open_data_file RB w = (Some RB, ?w1)"
    using assms(2) by (cases w) (simp add: open_data_file_def fopen_def emit_def)
  have rd: "read_client_from_file (Some RB) (Some junk) ?p ?w1 =
           (length (slot d (nat ?p)) = RECORD_SIZE,
            Some (if length (slot d (nat ?p)) = RECORD_SIZE then decode (slot d (nat ?p))
                  else decode (poke (encode junk) 0 (slot d (nat ?p)))),
            \<lparr>disk = Some d, stream_pos = nat ?p * RECORD_SIZE + length (slot d (nat ?p)),
               io_log = io_log ?w1 @ [EvSeek (nat ?p * RECORD_SIZE), EvRead (nat ?p * RECORD_SIZE)]\<rparr>)"
    by (rule read_client_from_file_run [OF p(1,2)]) (simp_all add: readable_def)
  show ?thesis
    using assms
    by (simp add: account_exists_def o rd close_data_file_def fclose_def emit_def p(3)
        occupied_def stored_at_def Let_def)
qed

lemma account_exists_zero_disk:
  assumes "disk w = Some (replicate (100 * RECORD_SIZE) NUL)"
  shows "fst (account_exists junk acct w) = False"
proof (cases "validate_account_number acct")
  case False
  then show ?thesis by (simp add: account_exists_invalid)
next
  case True
  then have "unat acct - 1 < 100"
    by (auto simp add: validate_account_number_unat)
  then have "stored_at w (unat acct - 1) = Some empty_client"
    using assms by (rule stored_at_zero_disk [rotated])
  then have "\<not> occupied w (unat acct - 1)"
    by (simp add: occupied_def empty_client_def)
  then show ?thesis
    using account_exists_run [OF True assms] by simp
qed


text \<open>
  Claim C6. After \<open>initialize_data_file\<close> (\<^verbatim>\<open>version2.c\<close>), and after
  \<open>initialize_data_file_if_needed\<close> (\<^verbatim>\<open>version3.c\<close>) when there was no data file, the file is
  a hundred empty records and nothing more, written in the order of the slots 0 to 99, and
  \<open>account_exists\<close> is false of every account number, those of 1 to 100 among them.
\<close>

theorem initialize_gives_empty_store:
  "disk (initialize_data_file w) = Some (concat (replicate 100 (encode empty_client)))
   \<and> io_log (initialize_data_file w)
       = io_log w @ [EvOpen WB] @ map (\<lambda>i. EvWrite (i * RECORD_SIZE)) [0..<100] @ [EvClose]
   \<and> (\<forall>i \<in> {0..<100}. stored_at (initialize_data_file w) i = Some empty_client)
   \<and> stored_at (initialize_data_file w) 100 = None
   \<and> (\<forall>acct. fst (account_exists junk acct (initialize_data_file w)) = False)
   \<and> (disk w = None \<longrightarrow>
        disk (initialize_data_file_if_needed w)
          = Some (concat (replicate 100 (encode empty_client)))
        \<and> io_log (initialize_data_file_if_needed w)
            = io_log w @ [EvOpen RB, EvOpen WB]
                @ map (\<lambda>i. EvWrite (i * RECORD_SIZE)) [0..<100] @ [EvClose]
        \<and> (\<forall>i \<in> {0..<100}. stored_at (initialize_data_file_if_needed w) i = Some empty_client)
        \<and> stored_at (initialize_data_file_if_needed w) 100 = None
        \<and> (\<forall>acct. fst (account_exists junk acct (initialize_data_file_if_needed w)) = False))"
proof -
  have z: "concat (replicate 100 (encode empty_client)) = replicate (100 * RECORD_SIZE) NUL"
    by (simp only: encode_empty_client concat_replicate_zeros)
  have d2: "disk (initialize_data_file w) = Some (replicate (100 * RECORD_SIZE) NUL)"
    by (simp add: initialize_data_file_run)
  have l2: "io_log (initialize_data_file w)
       = io_log w @ [EvOpen WB] @ map (\<lambda>i. EvWrite (i * RECORD_SIZE)) [0..<100] @ [EvClose]"
    by (simp add: initialize_data_file_run del: upt_Suc)
  have v2: "disk (initialize_data_file w) = Some (concat (replicate 100 (encode empty_client)))
   \<and> (\<forall>i \<in> {0..<100}. stored_at (initialize_data_file w) i = Some empty_client)
   \<and> stored_at (initialize_data_file w) 100 = None
   \<and> (\<forall>acct. fst (account_exists junk acct (initialize_data_file w)) = False)"
    using d2 by (simp add: z stored_at_zero_disk stored_at_beyond account_exists_zero_disk)
  have v3: "disk (initialize_data_file_if_needed w)
          = Some (concat (replicate 100 (encode empty_client)))
        \<and> io_log (initialize_data_file_if_needed w)
            = io_log w @ [EvOpen RB, EvOpen WB]
                @ map (\<lambda>i. EvWrite (i * RECORD_SIZE)) [0..<100] @ [EvClose]
        \<and> (\<forall>i \<in> {0..<100}. stored_at (initialize_data_file_if_needed w) i = Some empty_client)
        \<and> stored_at (initialize_data_file_if_needed w) 100 = None
        \<and> (\<forall>acct. fst (account_exists junk acct (initialize_data_file_if_needed w)) = False)"
    if n: "disk w = None"
  proof -
    have d3: "disk (initialize_data_file_if_needed w) = Some (replicate (100 * RECORD_SIZE) NUL)"
      using n by (simp add: initialize_data_file_if_needed_run)
    have l3: "io_log (initialize_data_file_if_needed w)
            = io_log w @ [EvOpen RB, EvOpen WB]
                @ map (\<lambda>i. EvWrite (i * RECORD_SIZE)) [0..<100] @ [EvClose]"
      using n by (simp add: initialize_data_file_if_needed_run del: upt_Suc)
    show ?thesis
      using d3 l3
      by (simp add: z stored_at_zero_disk stored_at_beyond account_exists_zero_disk del: upt_Suc)
  qed
  from l2 v2 v3 show ?thesis by blast
qed

theorem initialize_gives_empty_store_witness:
  "disk (initialize_data_file_if_needed \<lparr>disk = None, stream_pos = 0, io_log = []\<rparr>)
     = Some (replicate 4000 NUL)
   \<and> stored_at (initialize_data_file_if_needed \<lparr>disk = None, stream_pos = 0, io_log = []\<rparr>) 0
     = Some empty_client
   \<and> stored_at (initialize_data_file \<lparr>disk = None, stream_pos = 0, io_log = []\<rparr>) 99
     = Some empty_client
   \<and> fst (account_exists empty_client 1
        (initialize_data_file_if_needed \<lparr>disk = None, stream_pos = 0, io_log = []\<rparr>)) = False
   \<and> fst (account_exists empty_client 100
        (initialize_data_file \<lparr>disk = None, stream_pos = 0, io_log = []\<rparr>)) = False"
proof -
  let ?w = "\<lparr>disk = None, stream_pos = 0, io_log = []\<rparr>"
  note t = initialize_gives_empty_store [of ?w empty_client]
  have z: "concat (replicate 100 (encode empty_client)) = replicate 4000 NUL"
    by (simp only: encode_empty_client concat_replicate_zeros) simp
  from t have 1: "disk (initialize_data_file_if_needed ?w) = Some (replicate 4000 NUL)"
    by (simp only: z) simp
  from t have "\<forall>i \<in> {0..<100}. stored_at (initialize_data_file_if_needed ?w) i = Some empty_client"
    by simp
  then have 2: "stored_at (initialize_data_file_if_needed ?w) 0 = Some empty_client"
    by simp
  from t have "\<forall>i \<in> {0..<100}. stored_at (initialize_data_file ?w) i = Some empty_client"
    by blast
  then have 3: "stored_at (initialize_data_file ?w) 99 = Some empty_client"
    by simp
  from t have 4: "fst (account_exists empty_client 1 (initialize_data_file_if_needed ?w)) = False"
    by simp
  from t have 5: "fst (account_exists empty_client 100 (initialize_data_file ?w)) = False"
    by blast
  from 1 2 3 4 5 show ?thesis by blast
qed

section \<open>Creating an account\<close>

lemma length_get_name_input [simp]: "length (get_name_input b n p) = length b"
  by (simp add: get_name_input_def fgets_def memmove_def Let_def split: option.splits)

lemma built_client_facts:
  assumes "wf_frame fr"
  shows "wf_client (built_client fr inp)"
    and "acct_num (built_client fr inp) = get_account_number (ci_acct inp)"
    and "balance (built_client fr inp) = get_balance_input (ci_balance inp)"
    and "c_str (last_name (built_client fr inp))
           = take 14 (c_str (get_name_input (junk_last fr) 15 (ci_last inp)))"
    and "c_str (first_name (built_client fr inp))
           = take 9 (c_str (get_name_input (junk_first fr) 10 (ci_first inp)))"
    and "NUL \<in> set (last_name (built_client fr inp))
           \<and> NUL \<in> set (first_name (built_client fr inp))
           \<and> strlen (last_name (built_client fr inp)) \<le> 14
           \<and> strlen (first_name (built_client fr inp)) \<le> 9"
proof -
  from assms have wf: "wf_client (junk_client fr)" by (simp add: wf_frame_def)
  from initialize_client_filled [OF wf, of "get_account_number (ci_acct inp)"
      "Some (get_name_input (junk_last fr) 15 (ci_last inp))"
      "Some (get_name_input (junk_first fr) 10 (ci_first inp))"
      "get_balance_input (ci_balance inp)"]
  obtain r where
    i: "initialize_client (Some (junk_client fr)) (get_account_number (ci_acct inp))
          (Some (get_name_input (junk_last fr) 15 (ci_last inp)))
          (Some (get_name_input (junk_first fr) 10 (ci_first inp)))
          (get_balance_input (ci_balance inp)) = Some r"
    and f: "wf_client r" "acct_num r = get_account_number (ci_acct inp)"
      "balance r = get_balance_input (ci_balance inp)"
      "NUL \<in> set (last_name r)" "NUL \<in> set (first_name r)"
      "strlen (last_name r) \<le> 14" "strlen (first_name r) \<le> 9"
      "c_str (last_name r) = take 14 (c_str (get_name_input (junk_last fr) 15 (ci_last inp)))"
      "c_str (first_name r) = take 9 (c_str (get_name_input (junk_first fr) 10 (ci_first inp)))"
    by auto
  have b: "built_client fr inp = r"
    by (simp only: built_client_def i option.sel)
  show "wf_client (built_client fr inp)"
    and "acct_num (built_client fr inp) = get_account_number (ci_acct inp)"
    and "balance (built_client fr inp) = get_balance_input (ci_balance inp)"
    and "c_str (last_name (built_client fr inp))
           = take 14 (c_str (get_name_input (junk_last fr) 15 (ci_last inp)))"
    and "c_str (first_name (built_client fr inp))
           = take 9 (c_str (get_name_input (junk_first fr) 10 (ci_first inp)))"
    and "NUL \<in> set (last_name (built_client fr inp))
           \<and> NUL \<in> set (first_name (built_client fr inp))
           \<and> strlen (last_name (built_client fr inp)) \<le> 14
           \<and> strlen (first_name (built_client fr inp)) \<le> 9"
    unfolding b using f by simp_all
qed

lemma get_account_number_Some:
  "validate_account_number a \<Longrightarrow> get_account_number (Some a) = a"
  by (simp add: get_account_number_def)

lemma valid_not_zero: "validate_account_number a \<Longrightarrow> a \<noteq> 0"
  by (auto simp add: validate_account_number_unat)

lemma get_account_number_valid:
  "get_account_number scanned \<noteq> 0 \<Longrightarrow> validate_account_number (get_account_number scanned)"
  using get_account_number_cases [of scanned] by simp

lemma index_less: "validate_account_number a \<Longrightarrow> unat a - 1 < 100"
  by (auto simp add: validate_account_number_unat)

lemma unat_index: "validate_account_number a \<Longrightarrow> unat a = (unat a - 1) + 1"
  by (auto simp add: validate_account_number_unat)

lemma create_invalid_number:
  "get_account_number (ci_acct inp) = 0 \<Longrightarrow>
     create_account fr inp w = (Create_invalid_number, w)"
  by (simp add: create_account_def)

lemma create_exists:
  assumes "get_account_number (ci_acct inp) = a" "a \<noteq> 0"
    and "account_exists (junk_client fr) a w = (True, w1)"
  shows "create_account fr inp w = (Create_exists, w1)"
  using assms(2) by (simp add: create_account_def assms(1,3))

lemma create_invalid_name:
  assumes "get_account_number (ci_acct inp) = a" "a \<noteq> 0"
    and "account_exists (junk_client fr) a w = (False, w1)" and "\<not> names_valid fr inp"
  shows "create_account fr inp w = (Create_invalid_name, w1)"
  using assms(2,4) by (auto simp add: create_account_def assms(1,3) names_valid_def Let_def)

lemma create_open_failed_step:
  assumes "get_account_number (ci_acct inp) = a" "a \<noteq> 0"
    and "account_exists (junk_client fr) a w = (False, w1)" and "names_valid fr inp"
    and "open_data_file RBplus w1 = (None, w2)"
  shows "create_account fr inp w = (Create_open_failed, w2)"
  using assms(2,4) by (simp add: create_account_def assms(1,3,5) names_valid_def Let_def)

lemma create_write_step:
  assumes "get_account_number (ci_acct inp) = a" "a \<noteq> 0"
    and "account_exists (junk_client fr) a w = (False, w1)" and "names_valid fr inp"
    and "open_data_file RBplus w1 = (Some fp, w2)"
    and "write_client_to_file (Some fp) (Some (built_client fr inp)) (sint (a - 1)) w2
           = (success, w3)"
    and "close_data_file (Some fp) w3 = (rc, w4)"
  shows "create_account fr inp w =
           (if success then Created (built_client fr inp) else Create_write_failed, w4)"
  using assms(2,4) assms(6) [unfolded built_client_def assms(1)]
  by (simp add: create_account_def assms(1,3,5,7) names_valid_def Let_def built_client_def)

lemma create_open_failed:
  assumes "get_account_number (ci_acct inp) = a" "a \<noteq> 0" "disk w = None"
    and "names_valid fr inp"
  shows "create_account fr inp w
           = (Create_open_failed, emit (EvOpen RBplus) (emit (EvOpen RB) w))"
proof -
  have v: "validate_account_number a"
    using assms(1,2) get_account_number_valid [of "ci_acct inp"] by simp
  have e: "account_exists (junk_client fr) a w = (False, emit (EvOpen RB) w)"
    using v assms(3) by (rule account_exists_missing)
  have o: "open_data_file RBplus (emit (EvOpen RB) w)
             = (None, emit (EvOpen RBplus) (emit (EvOpen RB) w))"
    using assms(3) by (simp add: open_data_file_def fopen_def emit_def)
  show ?thesis
    by (rule create_open_failed_step [OF assms(1,2) e assms(4) o])
qed

lemma create_created:
  assumes "get_account_number (ci_acct inp) = a" "a \<noteq> 0" "disk w = Some d"
    and "\<not> occupied w (unat a - 1)" and "names_valid fr inp"
  shows "create_account fr inp w =
     (Created (built_client fr inp),
      \<lparr>disk = Some (pwrite d ((unat a - 1) * RECORD_SIZE) (encode (built_client fr inp))),
         stream_pos = (unat a - 1) * RECORD_SIZE + RECORD_SIZE,
         io_log = io_log w @
           [EvOpen RB, EvSeek ((unat a - 1) * RECORD_SIZE),
            EvRead ((unat a - 1) * RECORD_SIZE), EvClose,
            EvOpen RBplus, EvSeek ((unat a - 1) * RECORD_SIZE),
            EvWrite ((unat a - 1) * RECORD_SIZE), EvClose]\<rparr>)"
proof -
  have v: "validate_account_number a"
    using assms(1,2) get_account_number_valid [of "ci_acct inp"] by simp
  note p = position_facts [OF v]
  let ?i = "unat a - 1"
  let ?w1 = "\<lparr>disk = Some d, stream_pos = ?i * RECORD_SIZE + length (slot d ?i),
               io_log = io_log w @ [EvOpen RB, EvSeek (?i * RECORD_SIZE),
                                    EvRead (?i * RECORD_SIZE), EvClose]\<rparr>"
  have e: "account_exists (junk_client fr) a w = (False, ?w1)"
    using account_exists_run [OF v assms(3), of "junk_client fr"] assms(4) by simp
  let ?w2 = "\<lparr>disk = Some d, stream_pos = 0,
               io_log = io_log w @ [EvOpen RB, EvSeek (?i * RECORD_SIZE),
                                    EvRead (?i * RECORD_SIZE), EvClose, EvOpen RBplus]\<rparr>"
  have o: "open_data_file RBplus ?w1 = (Some RBplus, ?w2)"
    by (simp add: open_data_file_def fopen_def emit_def)
  let ?w3 = "\<lparr>disk = Some (pwrite d (?i * RECORD_SIZE) (encode (built_client fr inp))),
               stream_pos = ?i * RECORD_SIZE + RECORD_SIZE,
               io_log = io_log w @ [EvOpen RB, EvSeek (?i * RECORD_SIZE),
                                    EvRead (?i * RECORD_SIZE), EvClose, EvOpen RBplus,
                                    EvSeek (?i * RECORD_SIZE), EvWrite (?i * RECORD_SIZE)]\<rparr>"
  have "write_client_to_file (Some RBplus) (Some (built_client fr inp)) (sint (a - 1)) ?w2 =
           (True, \<lparr>disk = Some (pwrite d (nat (sint (a - 1)) * RECORD_SIZE)
                                   (encode (built_client fr inp))),
                    stream_pos = nat (sint (a - 1)) * RECORD_SIZE + RECORD_SIZE,
                    io_log = io_log ?w2 @ [EvSeek (nat (sint (a - 1)) * RECORD_SIZE),
                                           EvWrite (nat (sint (a - 1)) * RECORD_SIZE)]\<rparr>)"
    by (rule write_client_to_file_run [OF p(1,2)]) (simp_all add: writable_def)
  then have wr: "write_client_to_file (Some RBplus) (Some (built_client fr inp))
                   (sint (a - 1)) ?w2 = (True, ?w3)"
    by (simp add: p(3))
  let ?w4 = "\<lparr>disk = Some (pwrite d (?i * RECORD_SIZE) (encode (built_client fr inp))),
               stream_pos = ?i * RECORD_SIZE + RECORD_SIZE,
               io_log = io_log w @ [EvOpen RB, EvSeek (?i * RECORD_SIZE),
                                    EvRead (?i * RECORD_SIZE), EvClose, EvOpen RBplus,
                                    EvSeek (?i * RECORD_SIZE), EvWrite (?i * RECORD_SIZE),
                                    EvClose]\<rparr>"
  have c: "close_data_file (Some RBplus) ?w3 = (0, ?w4)"
    by (simp add: close_data_file_def fclose_def emit_def)
  show ?thesis
    using create_write_step [OF assms(1,2) e assms(5) o wr c] by simp
qed

lemma account_exists_world:
  "disk (snd (account_exists junk a w)) = disk w
   \<and> (\<exists>evs. io_log (snd (account_exists junk a w)) = io_log w @ evs
         \<and> \<not> (\<exists>e \<in> set evs. is_write e))"
proof (cases "validate_account_number a")
  case False
  then show ?thesis by (simp add: account_exists_invalid)
next
  case True
  show ?thesis
  proof (cases "disk w")
    case None
    have "account_exists junk a w = (False, emit (EvOpen RB) w)"
      using True None by (rule account_exists_missing)
    then show ?thesis
      by (simp add: emit_def is_write_def)
  next
    case (Some d)
    note r = account_exists_run [OF True Some, of junk]
    have "disk (snd (account_exists junk a w)) = disk w"
      by (simp only: r snd_conv world.simps Some)
    moreover have "io_log (snd (account_exists junk a w))
        = io_log w @ [EvOpen RB, EvSeek ((unat a - 1) * RECORD_SIZE),
                      EvRead ((unat a - 1) * RECORD_SIZE), EvClose]"
      by (simp only: r snd_conv world.simps)
    moreover have "\<not> (\<exists>e \<in> set [EvOpen RB, EvSeek ((unat a - 1) * RECORD_SIZE),
                      EvRead ((unat a - 1) * RECORD_SIZE), EvClose]. is_write e)"
      by (simp add: is_write_def)
    ultimately show ?thesis by blast
  qed
qed

lemma account_exists_occupied:
  assumes "validate_account_number a"
  shows "fst (account_exists junk a w) = occupied w (unat a - 1)"
proof (cases "disk w")
  case None
  have "account_exists junk a w = (False, emit (EvOpen RB) w)"
    using assms None by (rule account_exists_missing)
  then show ?thesis using None by (simp add: occupied_def stored_at_def)
next
  case (Some d)
  show ?thesis by (simp only: account_exists_run [OF assms Some, of junk] fst_conv)
qed

lemma stored_at_cong: "disk w' = disk w \<Longrightarrow> stored_at w' i = stored_at w i"
  by (simp add: stored_at_def)

lemma occupied_cong: "disk w' = disk w \<Longrightarrow> occupied w' i = occupied w i"
  using stored_at_cong [of w' w i] by (simp add: occupied_def)

lemma stored_at_written:
  assumes "disk w = Some (pwrite d (i * RECORD_SIZE) (encode r))" "wf_client r"
  shows "stored_at w i = Some r"
  using assms by (simp add: stored_at_def slot_pwrite_same)

lemma account_exists_pair:
  "account_exists junk a w = (fst (account_exists junk a w), snd (account_exists junk a w))"
  by simp

lemma create_Created_inversion:
  assumes "create_account fr inp w = (Created r, w1)"
  shows "get_account_number (ci_acct inp) \<noteq> 0 \<and> r = built_client fr inp
     \<and> names_valid fr inp
     \<and> \<not> occupied w (unat (get_account_number (ci_acct inp)) - 1)
     \<and> (\<exists>d. disk w = Some d
            \<and> disk w1 = Some (pwrite d ((unat (get_account_number (ci_acct inp)) - 1) * RECORD_SIZE)
                                 (encode r)))"
proof -
  define a where "a = get_account_number (ci_acct inp)"
  have a: "get_account_number (ci_acct inp) = a" by (simp add: a_def)
  have nz: "a \<noteq> 0"
  proof
    assume "a = 0"
    with a have "create_account fr inp w = (Create_invalid_number, w)"
      by (simp add: create_invalid_number)
    with assms show False by simp
  qed
  then have v: "validate_account_number a"
    using get_account_number_valid [of "ci_acct inp"] a by simp
  have ne: "\<not> fst (account_exists (junk_client fr) a w)"
  proof
    assume "fst (account_exists (junk_client fr) a w)"
    then have "account_exists (junk_client fr) a w
                 = (True, snd (account_exists (junk_client fr) a w))"
      using account_exists_pair [of "junk_client fr" a w] by simp
    from create_exists [OF a nz this] assms show False by simp
  qed
  then have e: "account_exists (junk_client fr) a w
                 = (False, snd (account_exists (junk_client fr) a w))"
    using account_exists_pair [of "junk_client fr" a w] by simp
  have no: "\<not> occupied w (unat a - 1)"
    using ne account_exists_occupied [OF v, of "junk_client fr" w] by simp
  have nv: "names_valid fr inp"
  proof (rule ccontr)
    assume "\<not> names_valid fr inp"
    from create_invalid_name [OF a nz e this] assms show False by simp
  qed
  have "\<exists>d. disk w = Some d"
  proof (cases "disk w")
    case None
    from create_open_failed [OF a nz None nv] assms show ?thesis by simp
  next
    case (Some d)
    then show ?thesis by simp
  qed
  then obtain d where d: "disk w = Some d" by blast
  from create_created [OF a nz d no nv] assms
  have "r = built_client fr inp"
    and "disk w1 = Some (pwrite d ((unat a - 1) * RECORD_SIZE) (encode (built_client fr inp)))"
    by auto
  with nz nv no d show ?thesis unfolding a_def by simp
qed



text \<open>
  Claim C4. \<open>validate_account_number(n)\<close> is true if and only if n is one of 1 to 100. So
  \<open>create_account\<close> with account number 1 and with account number 100 creates the account,
  given names that pass validation, the data file, and a slot that holds no account; and
  with account number 0 or 101 it returns at "Invalid account number" and the world, the
  file in it, is what it was.
\<close>

theorem boundary_account_numbers:
  "(validate_account_number n \<longleftrightarrow> 1 \<le> unat n \<and> unat n \<le> 100)
   \<and> (\<forall>a \<in> {1, 100}.
         ci_acct inp = Some a \<and> wf_frame fr \<and> names_valid fr inp \<and> disk w \<noteq> None
         \<and> \<not> occupied w (unat a - 1) \<longrightarrow>
         (\<exists>r w'. create_account fr inp w = (Created r, w') \<and> acct_num r = a
                  \<and> stored_at w' (unat a - 1) = Some r))
   \<and> (\<forall>a \<in> {0, 101}.
         ci_acct inp = Some a \<longrightarrow> create_account fr inp w = (Create_invalid_number, w))"
proof (intro conjI ballI impI)
  show "validate_account_number n \<longleftrightarrow> 1 \<le> unat n \<and> unat n \<le> 100"
    by (rule validate_account_number_unat)
next
  fix a :: u32
  assume "a \<in> {1, 100}"
  then have v: "validate_account_number a"
    by (auto simp add: validate_account_number_def)
  assume h: "ci_acct inp = Some a \<and> wf_frame fr \<and> names_valid fr inp \<and> disk w \<noteq> None
         \<and> \<not> occupied w (unat a - 1)"
  then obtain d where d: "disk w = Some d" by auto
  have g: "get_account_number (ci_acct inp) = a"
    using h v by (simp add: get_account_number_Some)
  note bc = built_client_facts [of fr inp]
  from h have wf: "wf_frame fr" by simp
  have "acct_num (built_client fr inp) = a"
    using bc(2) [OF wf] g by simp
  moreover have "stored_at (snd (create_account fr inp w)) (unat a - 1) = Some (built_client fr inp)"
    using h bc(1) [OF wf]
    by (simp add: create_created [OF g valid_not_zero [OF v] d] stored_at_written)
  moreover have "fst (create_account fr inp w) = Created (built_client fr inp)"
    using h by (simp add: create_created [OF g valid_not_zero [OF v] d])
  ultimately show "\<exists>r w'. create_account fr inp w = (Created r, w') \<and> acct_num r = a
                  \<and> stored_at w' (unat a - 1) = Some r"
    by (metis prod.collapse)
next
  fix a :: u32
  assume "a \<in> {0, 101}"
  then have "\<not> validate_account_number a"
    by (auto simp add: validate_account_number_def)
  moreover assume "ci_acct inp = Some a"
  ultimately have "get_account_number (ci_acct inp) = 0"
    by (simp add: get_account_number_def)
  then show "create_account fr inp w = (Create_invalid_number, w)"
    by (rule create_invalid_number)
qed


theorem boundary_account_numbers_witness:
  "(\<exists>r w'. create_account
       \<lparr>junk_client = empty_client, junk_last = replicate 15 (CHR ''#''),
          junk_first = replicate 10 (CHR ''#'')\<rparr>
       \<lparr>ci_acct = Some 1, ci_last = ''Doe'' @ [CHR 0x0A], ci_first = ''Jane'' @ [CHR 0x0A],
          ci_balance = Some 0x4059000000000000\<rparr>
       (initialize_data_file \<lparr>disk = None, stream_pos = 0, io_log = []\<rparr>) = (Created r, w')
       \<and> acct_num r = 1 \<and> stored_at w' 0 = Some r)
   \<and> (\<exists>r w'. create_account
       \<lparr>junk_client = empty_client, junk_last = replicate 15 (CHR ''#''),
          junk_first = replicate 10 (CHR ''#'')\<rparr>
       \<lparr>ci_acct = Some 100, ci_last = ''Doe'' @ [CHR 0x0A], ci_first = ''Jane'' @ [CHR 0x0A],
          ci_balance = Some 0x4059000000000000\<rparr>
       (initialize_data_file \<lparr>disk = None, stream_pos = 0, io_log = []\<rparr>) = (Created r, w')
       \<and> acct_num r = 100 \<and> stored_at w' 99 = Some r)
   \<and> create_account
       \<lparr>junk_client = empty_client, junk_last = replicate 15 (CHR ''#''),
          junk_first = replicate 10 (CHR ''#'')\<rparr>
       \<lparr>ci_acct = Some 0, ci_last = ''Doe'' @ [CHR 0x0A], ci_first = ''Jane'' @ [CHR 0x0A],
          ci_balance = Some 0x4059000000000000\<rparr>
       (initialize_data_file \<lparr>disk = None, stream_pos = 0, io_log = []\<rparr>)
     = (Create_invalid_number, initialize_data_file \<lparr>disk = None, stream_pos = 0, io_log = []\<rparr>)
   \<and> create_account
       \<lparr>junk_client = empty_client, junk_last = replicate 15 (CHR ''#''),
          junk_first = replicate 10 (CHR ''#'')\<rparr>
       \<lparr>ci_acct = Some 101, ci_last = ''Doe'' @ [CHR 0x0A], ci_first = ''Jane'' @ [CHR 0x0A],
          ci_balance = Some 0x4059000000000000\<rparr>
       (initialize_data_file \<lparr>disk = None, stream_pos = 0, io_log = []\<rparr>)
     = (Create_invalid_number, initialize_data_file \<lparr>disk = None, stream_pos = 0, io_log = []\<rparr>)"
proof -
  let ?fr = "\<lparr>junk_client = empty_client, junk_last = replicate 15 (CHR ''#''),
          junk_first = replicate 10 (CHR ''#'')\<rparr>"
  let ?inp = "\<lambda>a. \<lparr>ci_acct = Some a, ci_last = ''Doe'' @ [CHR 0x0A],
          ci_first = ''Jane'' @ [CHR 0x0A], ci_balance = Some (0x4059000000000000 :: double)\<rparr>"
  let ?w = "initialize_data_file \<lparr>disk = None, stream_pos = 0, io_log = []\<rparr>"
  have wf: "wf_frame ?fr" by (simp add: wf_frame_def)
  have nv: "names_valid ?fr (?inp a)" for a
    unfolding names_valid_def by simp code_simp
  have d: "disk ?w = Some (replicate (100 * RECORD_SIZE) NUL)"
    by (simp add: initialize_data_file_run)
  have free: "\<not> occupied ?w i" if "i < 100" for i
    using stored_at_zero_disk [OF d that] by (simp add: occupied_def empty_client_def)
  note t = boundary_account_numbers [of _ "?inp 1" ?fr ?w]
    boundary_account_numbers [of _ "?inp 100" ?fr ?w]
    boundary_account_numbers [of _ "?inp 0" ?fr ?w]
    boundary_account_numbers [of _ "?inp 101" ?fr ?w]
  from t(1) wf nv [of 1] d free [of 0]
  have 1: "\<exists>r w'. create_account ?fr (?inp 1) ?w = (Created r, w')
       \<and> acct_num r = 1 \<and> stored_at w' 0 = Some r"
    by simp
  from t(2) wf nv [of 100] d free [of 99]
  have 2: "\<exists>r w'. create_account ?fr (?inp 100) ?w = (Created r, w')
       \<and> acct_num r = 100 \<and> stored_at w' 99 = Some r"
    by simp
  from t(3) have 3: "create_account ?fr (?inp 0) ?w = (Create_invalid_number, ?w)"
    by simp
  from t(4) have 4: "create_account ?fr (?inp 101) ?w = (Create_invalid_number, ?w)"
    by simp
  from 1 2 3 4 show ?thesis by (intro conjI)
qed

text \<open>
  Claim C7. When the slot of an account number holds an account, \<open>create_account\<close> with that
  number returns at "already exists": the file is unchanged and the trace gains no write.
  In particular, after a \<open>create_account\<close> that created a record, a second one with the same
  account number, whatever else its input, is refused and the slot still holds the record
  of the first.
\<close>

theorem duplicate_create_rejected:
  "(validate_account_number a \<and> ci_acct inp = Some a \<and> occupied w (unat a - 1) \<longrightarrow>
      (\<exists>w'. create_account fr inp w = (Create_exists, w') \<and> disk w' = disk w
         \<and> (\<exists>evs. io_log w' = io_log w @ evs \<and> \<not> (\<exists>e \<in> set evs. is_write e))))
   \<and> (wf_frame fr1 \<and> create_account fr1 inp1 w = (Created r, w1)
        \<and> get_account_number (ci_acct inp2) = acct_num r \<longrightarrow>
      stored_at w1 (unat (acct_num r) - 1) = Some r
      \<and> (\<exists>w2. create_account fr2 inp2 w1 = (Create_exists, w2) \<and> disk w2 = disk w1
            \<and> stored_at w2 (unat (acct_num r) - 1) = Some r))"
proof (intro conjI impI)
  assume h: "validate_account_number a \<and> ci_acct inp = Some a \<and> occupied w (unat a - 1)"
  then have g: "get_account_number (ci_acct inp) = a"
    by (simp add: get_account_number_Some)
  from h have nz: "a \<noteq> 0" by (simp add: valid_not_zero)
  from h have "fst (account_exists (junk_client fr) a w)"
    by (simp add: account_exists_occupied)
  then have e: "account_exists (junk_client fr) a w
                 = (True, snd (account_exists (junk_client fr) a w))"
    using account_exists_pair [of "junk_client fr" a w] by simp
  from create_exists [OF g nz e] account_exists_world [of "junk_client fr" a w]
  show "\<exists>w'. create_account fr inp w = (Create_exists, w') \<and> disk w' = disk w
         \<and> (\<exists>evs. io_log w' = io_log w @ evs \<and> \<not> (\<exists>e \<in> set evs. is_write e))"
    by blast
next
  assume h: "wf_frame fr1 \<and> create_account fr1 inp1 w = (Created r, w1)
        \<and> get_account_number (ci_acct inp2) = acct_num r"
  then have c: "create_account fr1 inp1 w = (Created r, w1)" and wf: "wf_frame fr1"
    and g2: "get_account_number (ci_acct inp2) = acct_num r"
    by simp_all
  note inv = create_Created_inversion [OF c]
  from inv have r: "r = built_client fr1 inp1" by simp
  have wfr: "wf_client r"
    unfolding r using wf by (rule built_client_facts(1))
  have ar: "acct_num r = get_account_number (ci_acct inp1)"
    unfolding r using wf by (rule built_client_facts(2))
  from inv ar have nz: "acct_num r \<noteq> 0" by simp
  then have v: "validate_account_number (acct_num r)"
    using get_account_number_valid [of "ci_acct inp1"] ar by simp
  from inv ar obtain d where
    d1: "disk w1 = Some (pwrite d ((unat (acct_num r) - 1) * RECORD_SIZE) (encode r))"
    by auto
  from d1 wfr show st: "stored_at w1 (unat (acct_num r) - 1) = Some r"
    by (rule stored_at_written)
  then have "occupied w1 (unat (acct_num r) - 1)"
    using nz by (simp add: occupied_def)
  then have "fst (account_exists (junk_client fr2) (acct_num r) w1)"
    using v by (simp add: account_exists_occupied)
  then have e: "account_exists (junk_client fr2) (acct_num r) w1
                 = (True, snd (account_exists (junk_client fr2) (acct_num r) w1))"
    using account_exists_pair [of "junk_client fr2" "acct_num r" w1] by simp
  from create_exists [OF g2 nz e] account_exists_world [of "junk_client fr2" "acct_num r" w1] st
  show "\<exists>w2. create_account fr2 inp2 w1 = (Create_exists, w2) \<and> disk w2 = disk w1
            \<and> stored_at w2 (unat (acct_num r) - 1) = Some r"
    using stored_at_cong [of "snd (account_exists (junk_client fr2) (acct_num r) w1)" w1
        "unat (acct_num r) - 1"]
    by auto
qed

theorem duplicate_create_rejected_witness:
  "\<exists>r w1 w2.
     create_account
       \<lparr>junk_client = empty_client, junk_last = replicate 15 (CHR ''#''),
          junk_first = replicate 10 (CHR ''#'')\<rparr>
       \<lparr>ci_acct = Some 5, ci_last = ''Doe'' @ [CHR 0x0A], ci_first = ''Jane'' @ [CHR 0x0A],
          ci_balance = Some 0x4059000000000000\<rparr>
       (initialize_data_file \<lparr>disk = None, stream_pos = 0, io_log = []\<rparr>) = (Created r, w1)
     \<and> acct_num r = 5 \<and> stored_at w1 4 = Some r
     \<and> create_account
       \<lparr>junk_client = empty_client, junk_last = replicate 15 (CHR ''#''),
          junk_first = replicate 10 (CHR ''#'')\<rparr>
       \<lparr>ci_acct = Some 5, ci_last = ''Roe'' @ [CHR 0x0A], ci_first = ''Jim'' @ [CHR 0x0A],
          ci_balance = Some 0\<rparr> w1 = (Create_exists, w2)
     \<and> disk w2 = disk w1 \<and> stored_at w2 4 = Some r
     \<and> (\<exists>evs. io_log w2 = io_log w1 @ evs \<and> \<not> (\<exists>e \<in> set evs. is_write e))"
proof -
  let ?fr = "\<lparr>junk_client = empty_client, junk_last = replicate 15 (CHR ''#''),
          junk_first = replicate 10 (CHR ''#'')\<rparr>"
  let ?inp1 = "\<lparr>ci_acct = Some 5, ci_last = ''Doe'' @ [CHR 0x0A],
          ci_first = ''Jane'' @ [CHR 0x0A], ci_balance = Some (0x4059000000000000 :: double)\<rparr>"
  let ?inp2 = "\<lparr>ci_acct = Some 5, ci_last = ''Roe'' @ [CHR 0x0A],
          ci_first = ''Jim'' @ [CHR 0x0A], ci_balance = Some (0 :: double)\<rparr>"
  let ?w = "initialize_data_file \<lparr>disk = None, stream_pos = 0, io_log = []\<rparr>"
  have wf: "wf_frame ?fr" by (simp add: wf_frame_def)
  have nv: "names_valid ?fr ?inp1"
    by code_simp
  have v: "validate_account_number 5"
    by (simp add: validate_account_number_def)
  have g: "get_account_number (ci_acct ?inp1) = 5" "get_account_number (ci_acct ?inp2) = 5"
    using v by (simp_all add: get_account_number_Some)
  have d: "disk ?w = Some (replicate (100 * RECORD_SIZE) NUL)"
    by (simp add: initialize_data_file_run)
  have free: "\<not> occupied ?w (unat (5 :: u32) - 1)"
    using stored_at_zero_disk [OF d, of 4] by (simp add: occupied_def empty_client_def)
  obtain w1 where c: "create_account ?fr ?inp1 ?w = (Created (built_client ?fr ?inp1), w1)"
    using create_created [OF g(1) _ d free nv] by simp
  have a: "acct_num (built_client ?fr ?inp1) = 5"
    using built_client_facts(2) [OF wf, of ?inp1] g(1) by simp
  note t1 = duplicate_create_rejected
    [where ?fr1.0 = ?fr and ?inp1.0 = ?inp1 and w = ?w and r = "built_client ?fr ?inp1"
       and ?w1.0 = w1 and ?inp2.0 = ?inp2 and ?fr2.0 = ?fr, THEN conjunct2]
  from t1 wf c g(2) a
  have 2: "stored_at w1 4 = Some (built_client ?fr ?inp1)
      \<and> (\<exists>w2. create_account ?fr ?inp2 w1 = (Create_exists, w2) \<and> disk w2 = disk w1
            \<and> stored_at w2 4 = Some (built_client ?fr ?inp1))"
    by simp
  then obtain w2 where c2: "create_account ?fr ?inp2 w1 = (Create_exists, w2)"
    and d2: "disk w2 = disk w1" and s2: "stored_at w2 4 = Some (built_client ?fr ?inp1)"
    by blast
  have "occupied w1 (unat (5 :: u32) - 1)"
    using 2 a by (simp add: occupied_def)
  with duplicate_create_rejected
    [where a = 5 and inp = ?inp2 and w = w1 and fr = ?fr, THEN conjunct1] v c2
  have 3: "\<exists>evs. io_log w2 = io_log w1 @ evs \<and> \<not> (\<exists>e \<in> set evs. is_write e)"
    by simp
  from c a 2 c2 d2 s2 3 show ?thesis by blast
qed


text \<open>
  Claim C8, as the code refutes it. On a file of one empty slot, \<open>create_account\<close> for account
  number 1 with the last name \<open>123\<close> returns at "Invalid name format", and by then it has
  opened the file, moved to the slot, read it and closed the file: the existence check
  comes before the names are asked for.
\<close>

theorem create_invalid_name_probes_counterexample:
  "create_account
     \<lparr>junk_client = empty_client, junk_last = replicate 15 (CHR ''#''),
        junk_first = replicate 10 (CHR ''#'')\<rparr>
     \<lparr>ci_acct = Some 1, ci_last = ''123'' @ [CHR 0x0A], ci_first = ''Jane'' @ [CHR 0x0A],
        ci_balance = Some 0x4059000000000000\<rparr>
     \<lparr>disk = Some (replicate 40 NUL), stream_pos = 0, io_log = []\<rparr>
   = (Create_invalid_name,
      \<lparr>disk = Some (replicate 40 NUL), stream_pos = 40,
         io_log = [EvOpen RB, EvSeek 0, EvRead 0, EvClose]\<rparr>)"
  by code_simp


text \<open>
  Claim C8, as the code has it. A \<open>create_account\<close> whose account number is refused returns at
  "Invalid account number" with the world unchanged: no call reached the file. When the
  account number is accepted, the slot holds no account and a name fails validation, it
  returns at "Invalid name format"; the file is unchanged, and the trace has gained the
  existence check alone: the open for reading and, when the file was there, the seek, the
  read and the close. When the slot holds an account, the names are never asked for and
  the return is the one at "already exists".
\<close>

theorem create_validation_failures:
  "(get_account_number (ci_acct inp) = 0 \<longrightarrow>
      create_account fr inp w = (Create_invalid_number, w))
   \<and> (get_account_number (ci_acct inp) \<noteq> 0
        \<and> \<not> occupied w (unat (get_account_number (ci_acct inp)) - 1)
        \<and> \<not> names_valid fr inp \<longrightarrow>
      (\<exists>w'. create_account fr inp w = (Create_invalid_name, w') \<and> disk w' = disk w
         \<and> io_log w' = io_log w @
              (if disk w = None then [EvOpen RB]
               else [EvOpen RB,
                     EvSeek ((unat (get_account_number (ci_acct inp)) - 1) * RECORD_SIZE),
                     EvRead ((unat (get_account_number (ci_acct inp)) - 1) * RECORD_SIZE),
                     EvClose])))
   \<and> (get_account_number (ci_acct inp) \<noteq> 0
        \<and> occupied w (unat (get_account_number (ci_acct inp)) - 1) \<longrightarrow>
      (\<exists>w'. create_account fr inp w = (Create_exists, w') \<and> disk w' = disk w))"
proof (intro conjI impI)
  assume "get_account_number (ci_acct inp) = 0"
  then show "create_account fr inp w = (Create_invalid_number, w)"
    by (rule create_invalid_number)
next
  define a where "a = get_account_number (ci_acct inp)"
  assume h: "get_account_number (ci_acct inp) \<noteq> 0
        \<and> \<not> occupied w (unat (get_account_number (ci_acct inp)) - 1)
        \<and> \<not> names_valid fr inp"
  then have nz: "a \<noteq> 0" and free: "\<not> occupied w (unat a - 1)" and nv: "\<not> names_valid fr inp"
    by (simp_all add: a_def)
  have g: "get_account_number (ci_acct inp) = a" by (simp add: a_def)
  have v: "validate_account_number a"
    using get_account_number_valid [of "ci_acct inp"] nz by (simp add: a_def)
  show "\<exists>w'. create_account fr inp w = (Create_invalid_name, w') \<and> disk w' = disk w
         \<and> io_log w' = io_log w @
              (if disk w = None then [EvOpen RB]
               else [EvOpen RB,
                     EvSeek ((unat (get_account_number (ci_acct inp)) - 1) * RECORD_SIZE),
                     EvRead ((unat (get_account_number (ci_acct inp)) - 1) * RECORD_SIZE),
                     EvClose])"
    unfolding g
  proof (cases "disk w")
    case None
    have e: "account_exists (junk_client fr) a w = (False, emit (EvOpen RB) w)"
      using v None by (rule account_exists_missing)
    show "\<exists>w'. create_account fr inp w = (Create_invalid_name, w') \<and> disk w' = disk w
         \<and> io_log w' = io_log w @
              (if disk w = None then [EvOpen RB]
               else [EvOpen RB, EvSeek ((unat a - 1) * RECORD_SIZE),
                     EvRead ((unat a - 1) * RECORD_SIZE), EvClose])"
      using None by (simp add: create_invalid_name [OF g nz e nv] emit_def)
  next
    case (Some d)
    have e: "account_exists (junk_client fr) a w =
           (False,
            \<lparr>disk = Some d,
               stream_pos = (unat a - 1) * RECORD_SIZE + length (slot d (unat a - 1)),
               io_log = io_log w @ [EvOpen RB, EvSeek ((unat a - 1) * RECORD_SIZE),
                                    EvRead ((unat a - 1) * RECORD_SIZE), EvClose]\<rparr>)"
      using account_exists_run [OF v Some, of "junk_client fr"] free by simp
    show "\<exists>w'. create_account fr inp w = (Create_invalid_name, w') \<and> disk w' = disk w
         \<and> io_log w' = io_log w @
              (if disk w = None then [EvOpen RB]
               else [EvOpen RB, EvSeek ((unat a - 1) * RECORD_SIZE),
                     EvRead ((unat a - 1) * RECORD_SIZE), EvClose])"
      using Some by (simp add: create_invalid_name [OF g nz e nv])
  qed
next
  define a where "a = get_account_number (ci_acct inp)"
  assume h: "get_account_number (ci_acct inp) \<noteq> 0
        \<and> occupied w (unat (get_account_number (ci_acct inp)) - 1)"
  then have nz: "a \<noteq> 0" and occ: "occupied w (unat a - 1)"
    by (simp_all add: a_def)
  have g: "get_account_number (ci_acct inp) = a" by (simp add: a_def)
  have v: "validate_account_number a"
    using get_account_number_valid [of "ci_acct inp"] nz by (simp add: a_def)
  have "fst (account_exists (junk_client fr) a w)"
    using occ v by (simp add: account_exists_occupied)
  then have e: "account_exists (junk_client fr) a w
                 = (True, snd (account_exists (junk_client fr) a w))"
    using account_exists_pair [of "junk_client fr" a w] by simp
  from create_exists [OF g nz e] account_exists_world [of "junk_client fr" a w]
  show "\<exists>w'. create_account fr inp w = (Create_exists, w') \<and> disk w' = disk w"
    by blast
qed

theorem create_validation_failures_witness:
  "create_account
     \<lparr>junk_client = empty_client, junk_last = replicate 15 (CHR ''#''),
        junk_first = replicate 10 (CHR ''#'')\<rparr>
     \<lparr>ci_acct = Some 101, ci_last = ''Doe'' @ [CHR 0x0A], ci_first = ''Jane'' @ [CHR 0x0A],
        ci_balance = Some 0x4059000000000000\<rparr>
     \<lparr>disk = Some (replicate 40 NUL), stream_pos = 0, io_log = []\<rparr>
   = (Create_invalid_number, \<lparr>disk = Some (replicate 40 NUL), stream_pos = 0, io_log = []\<rparr>)
   \<and> (\<exists>w'. create_account
     \<lparr>junk_client = empty_client, junk_last = replicate 15 (CHR ''#''),
        junk_first = replicate 10 (CHR ''#'')\<rparr>
     \<lparr>ci_acct = Some 1, ci_last = ''123'' @ [CHR 0x0A], ci_first = ''Jane'' @ [CHR 0x0A],
        ci_balance = Some 0x4059000000000000\<rparr>
     \<lparr>disk = Some (replicate 40 NUL), stream_pos = 0, io_log = []\<rparr> = (Create_invalid_name, w')
       \<and> disk w' = Some (replicate 40 NUL)
       \<and> io_log w' = [EvOpen RB, EvSeek 0, EvRead 0, EvClose])
   \<and> (\<exists>w'. create_account
     \<lparr>junk_client = empty_client, junk_last = replicate 15 (CHR ''#''),
        junk_first = replicate 10 (CHR ''#'')\<rparr>
     \<lparr>ci_acct = Some 1, ci_last = ''123'' @ [CHR 0x0A], ci_first = ''Jane'' @ [CHR 0x0A],
        ci_balance = Some 0x4059000000000000\<rparr>
     \<lparr>disk = Some (encode \<lparr>acct_num = 1, last_name = ''Old'' @ replicate 12 NUL,
                                first_name = ''Name'' @ replicate 6 NUL, balance = 0\<rparr>),
        stream_pos = 0, io_log = []\<rparr> = (Create_exists, w')
       \<and> disk w' = Some (encode \<lparr>acct_num = 1, last_name = ''Old'' @ replicate 12 NUL,
                                first_name = ''Name'' @ replicate 6 NUL, balance = 0\<rparr>))"
proof -
  let ?fr = "\<lparr>junk_client = empty_client, junk_last = replicate 15 (CHR ''#''),
          junk_first = replicate 10 (CHR ''#'')\<rparr>"
  let ?inp1 = "\<lparr>ci_acct = Some 101, ci_last = ''Doe'' @ [CHR 0x0A],
          ci_first = ''Jane'' @ [CHR 0x0A], ci_balance = Some (0x4059000000000000 :: double)\<rparr>"
  let ?inp2 = "\<lparr>ci_acct = Some 1, ci_last = ''123'' @ [CHR 0x0A],
          ci_first = ''Jane'' @ [CHR 0x0A], ci_balance = Some (0x4059000000000000 :: double)\<rparr>"
  let ?w = "\<lparr>disk = Some (replicate 40 NUL), stream_pos = 0, io_log = []\<rparr>"
  let ?old = "\<lparr>acct_num = 1, last_name = ''Old'' @ replicate 12 NUL,
                first_name = ''Name'' @ replicate 6 NUL, balance = 0\<rparr>"
  let ?w3 = "\<lparr>disk = Some (encode ?old), stream_pos = 0, io_log = []\<rparr>"
  have g1: "get_account_number (Some 101) = 0"
    by (simp add: get_account_number_def validate_account_number_def)
  have g2: "get_account_number (Some 1) = 1"
    by (simp add: get_account_number_def validate_account_number_def)
  have nv: "\<not> names_valid ?fr ?inp2"
    by code_simp
  have free: "\<not> occupied ?w 0"
    by (simp add: occupied_def stored_at_def slot_def decode_zeros empty_client_def)
  have wfo: "wf_client ?old" by (simp add: wf_client_def)
  have "slot (encode ?old) 0 = encode ?old"
    using wfo by (simp add: slot_def)
  then have occ: "occupied ?w3 0"
    using wfo by (simp add: occupied_def stored_at_def)
  from create_validation_failures [of ?inp1 ?fr ?w]
  have 1: "create_account ?fr ?inp1 ?w = (Create_invalid_number, ?w)"
    by (simp add: g1)
  from create_validation_failures [of ?inp2 ?fr ?w] nv free
  have 2: "\<exists>w'. create_account ?fr ?inp2 ?w = (Create_invalid_name, w')
       \<and> disk w' = Some (replicate 40 NUL)
       \<and> io_log w' = [EvOpen RB, EvSeek 0, EvRead 0, EvClose]"
    by (simp add: g2)
  from create_validation_failures [of ?inp2 ?fr ?w3] occ
  have 3: "\<exists>w'. create_account ?fr ?inp2 ?w3 = (Create_exists, w')
       \<and> disk w' = Some (encode ?old)"
    by (simp add: g2)
  from 1 2 3 show ?thesis by (intro conjI)
qed

section \<open>Reading and deleting an account\<close>

lemma open_rbplus_present:
  "disk w = Some d \<Longrightarrow>
     open_data_file RBplus w
       = (Some RBplus, \<lparr>disk = Some d, stream_pos = 0, io_log = io_log w @ [EvOpen RBplus]\<rparr>)"
  by (cases w) (simp add: open_data_file_def fopen_def emit_def)

lemma open_rb_present:
  "disk w = Some d \<Longrightarrow>
     open_data_file RB w
       = (Some RB, \<lparr>disk = Some d, stream_pos = 0, io_log = io_log w @ [EvOpen RB]\<rparr>)"
  by (cases w) (simp add: open_data_file_def fopen_def emit_def)

lemma open_missing:
  "disk w = None \<Longrightarrow> mode = RB \<or> mode = RBplus \<Longrightarrow>
     open_data_file mode w = (None, emit (EvOpen mode) w)"
  by (auto simp add: open_data_file_def fopen_def)

lemma close_run: "close_data_file (Some fp) w = (0, emit EvClose w)"
  by (simp add: close_data_file_def fclose_def)

lemma occupied_iff:
  "disk w = Some d \<Longrightarrow>
     occupied w i \<longleftrightarrow> length (slot d i) = RECORD_SIZE \<and> acct_num (decode (slot d i)) \<noteq> 0"
  by (simp add: occupied_def stored_at_def)

lemma read_account_run:
  assumes "validate_account_number a" "disk w = Some d"
  shows "read_account fr (Some a) w =
     (if occupied w (unat a - 1) then Read_found (decode (slot d (unat a - 1)))
      else Read_not_found,
      \<lparr>disk = Some d,
         stream_pos = (unat a - 1) * RECORD_SIZE + length (slot d (unat a - 1)),
         io_log = io_log w @ [EvOpen RB, EvSeek ((unat a - 1) * RECORD_SIZE),
                              EvRead ((unat a - 1) * RECORD_SIZE), EvClose]\<rparr>)"
proof -
  note p = position_facts [OF assms(1)]
  let ?i = "unat a - 1"
  let ?w1 = "\<lparr>disk = Some d, stream_pos = 0, io_log = io_log w @ [EvOpen RB]\<rparr>"
  have rd: "read_client_from_file (Some RB) (Some (junk_client fr)) (sint (a - 1)) ?w1 =
           (length (slot d ?i) = RECORD_SIZE,
            Some (if length (slot d ?i) = RECORD_SIZE then decode (slot d ?i)
                  else decode (poke (encode (junk_client fr)) 0 (slot d ?i))),
            \<lparr>disk = Some d, stream_pos = ?i * RECORD_SIZE + length (slot d ?i),
               io_log = io_log w @ [EvOpen RB, EvSeek (?i * RECORD_SIZE),
                                    EvRead (?i * RECORD_SIZE)]\<rparr>)"
    using read_client_from_file_run [OF p(1,2), of ?w1 d RB "junk_client fr"]
    by (simp add: readable_def p(3))
  show ?thesis
    using valid_not_zero [OF assms(1)]
    by (simp add: read_account_def get_account_number_Some [OF assms(1)]
        open_rb_present [OF assms(2)] rd close_run emit_def occupied_iff [OF assms(2)])
qed

lemma delete_invalid_number:
  "get_account_number (di_acct inp) = 0 \<Longrightarrow>
     delete_account fr inp w = (Delete_invalid_number, w)"
  by (simp add: delete_account_def)

lemma delete_open_failed:
  "get_account_number (di_acct inp) \<noteq> 0 \<Longrightarrow> disk w = None \<Longrightarrow>
     delete_account fr inp w = (Delete_open_failed, emit (EvOpen RBplus) w)"
  by (simp add: delete_account_def open_missing)

lemma delete_account_run:
  assumes "get_account_number (di_acct inp) = a" "a \<noteq> 0" "disk w = Some d"
  shows "delete_account fr inp w =
     (if \<not> occupied w (unat a - 1) then
        (Delete_not_found,
         \<lparr>disk = Some d,
            stream_pos = (unat a - 1) * RECORD_SIZE + length (slot d (unat a - 1)),
            io_log = io_log w @ [EvOpen RBplus, EvSeek ((unat a - 1) * RECORD_SIZE),
                                 EvRead ((unat a - 1) * RECORD_SIZE), EvClose]\<rparr>)
      else
        (case di_confirmation inp of
           None \<Rightarrow>
             (Delete_invalid_input,
              \<lparr>disk = Some d,
                 stream_pos = (unat a - 1) * RECORD_SIZE + length (slot d (unat a - 1)),
                 io_log = io_log w @ [EvOpen RBplus, EvSeek ((unat a - 1) * RECORD_SIZE),
                                      EvRead ((unat a - 1) * RECORD_SIZE), EvClose]\<rparr>)
         | Some confirmation \<Rightarrow>
             if tolower confirmation \<noteq> CHR ''y'' then
               (Delete_cancelled,
                \<lparr>disk = Some d,
                   stream_pos = (unat a - 1) * RECORD_SIZE + length (slot d (unat a - 1)),
                   io_log = io_log w @ [EvOpen RBplus, EvSeek ((unat a - 1) * RECORD_SIZE),
                                        EvRead ((unat a - 1) * RECORD_SIZE), EvClose]\<rparr>)
             else
               (Deleted,
                \<lparr>disk = Some (pwrite d ((unat a - 1) * RECORD_SIZE) (encode empty_client)),
                   stream_pos = (unat a - 1) * RECORD_SIZE + RECORD_SIZE,
                   io_log = io_log w @ [EvOpen RBplus, EvSeek ((unat a - 1) * RECORD_SIZE),
                                        EvRead ((unat a - 1) * RECORD_SIZE),
                                        EvSeek ((unat a - 1) * RECORD_SIZE),
                                        EvWrite ((unat a - 1) * RECORD_SIZE), EvClose]\<rparr>)))"
proof -
  have v: "validate_account_number a"
    using assms(1,2) get_account_number_valid [of "di_acct inp"] by simp
  note p = position_facts [OF v]
  let ?i = "unat a - 1"
  let ?w1 = "\<lparr>disk = Some d, stream_pos = 0, io_log = io_log w @ [EvOpen RBplus]\<rparr>"
  let ?w2 = "\<lparr>disk = Some d, stream_pos = ?i * RECORD_SIZE + length (slot d ?i),
               io_log = io_log w @ [EvOpen RBplus, EvSeek (?i * RECORD_SIZE),
                                    EvRead (?i * RECORD_SIZE)]\<rparr>"
  have rd: "read_client_from_file (Some RBplus) (Some (junk_client fr)) (sint (a - 1)) ?w1 =
           (length (slot d ?i) = RECORD_SIZE,
            Some (if length (slot d ?i) = RECORD_SIZE then decode (slot d ?i)
                  else decode (poke (encode (junk_client fr)) 0 (slot d ?i))),
            ?w2)"
    using read_client_from_file_run [OF p(1,2), of ?w1 d RBplus "junk_client fr"]
    by (simp add: readable_def p(3))
  have wr: "write_client_to_file (Some RBplus) (Some empty_client) (sint (a - 1))
              \<lparr>disk = Some d, stream_pos = sp,
                 io_log = io_log w @ [EvOpen RBplus, EvSeek (?i * RECORD_SIZE),
                                      EvRead (?i * RECORD_SIZE)]\<rparr> =
           (True, \<lparr>disk = Some (pwrite d (?i * RECORD_SIZE) (encode empty_client)),
                    stream_pos = ?i * RECORD_SIZE + RECORD_SIZE,
                    io_log = io_log w @ [EvOpen RBplus, EvSeek (?i * RECORD_SIZE),
                                    EvRead (?i * RECORD_SIZE), EvSeek (?i * RECORD_SIZE),
                                    EvWrite (?i * RECORD_SIZE)]\<rparr>)" for sp
    using write_client_to_file_run [OF p(1,2), of
        "\<lparr>disk = Some d, stream_pos = sp,
                 io_log = io_log w @ [EvOpen RBplus, EvSeek (?i * RECORD_SIZE),
                                      EvRead (?i * RECORD_SIZE)]\<rparr>" d RBplus empty_client]
    by (simp add: writable_def p(3))
  show ?thesis
    using assms(2) wr
    by (simp add: delete_account_def assms(1) open_rbplus_present [OF assms(3)] rd close_run
        emit_def occupied_iff [OF assms(3)] split: option.splits)
qed

lemma occupied_disk: "occupied w i \<Longrightarrow> \<exists>d. disk w = Some d"
  by (cases "disk w") (simp_all add: occupied_def stored_at_def)



text \<open>
  Claim C9. \<open>delete_account\<close> on a slot that holds an account, once the answer to its
  confirmation prompt is \<open>y\<close> or \<open>Y\<close>, writes the empty record to the slot, whatever the
  balance of the account was: the slot then holds the empty record and \<open>account_exists\<close> is
  false of the account number. A \<open>create_account\<close> with the same number and names that pass
  validation then creates the account, and \<open>read_account\<close> finds the record just created:
  its account number, the balance entered and the two names entered.
\<close>

theorem delete_then_recreate:
  assumes "validate_account_number a" and "occupied w (unat a - 1)"
    and "di_acct dinp = Some a" and "di_confirmation dinp = Some c"
    and "tolower c = CHR ''y''"
    and "ci_acct cinp = Some a" and "names_valid fr2 cinp" and "wf_frame fr2"
  shows "\<exists>w1 w2 w3 r.
     delete_account fr1 dinp w = (Deleted, w1)
     \<and> stored_at w1 (unat a - 1) = Some empty_client
     \<and> fst (account_exists junk a w1) = False
     \<and> create_account fr2 cinp w1 = (Created r, w2)
     \<and> read_account fr3 (Some a) w2 = (Read_found r, w3)
     \<and> r = built_client fr2 cinp \<and> acct_num r = a
     \<and> balance r = get_balance_input (ci_balance cinp)
     \<and> c_str (last_name r) = take 14 (c_str (get_name_input (junk_last fr2) 15 (ci_last cinp)))
     \<and> c_str (first_name r)
           = take 9 (c_str (get_name_input (junk_first fr2) 10 (ci_first cinp)))"
proof -
  let ?i = "unat a - 1"
  let ?r = "built_client fr2 cinp"
  from assms(2) obtain d where d: "disk w = Some d"
    using occupied_disk by blast
  have nz: "a \<noteq> 0" using assms(1) by (rule valid_not_zero)
  have gd: "get_account_number (di_acct dinp) = a"
    using assms(1,3) by (simp add: get_account_number_Some)
  have gc: "get_account_number (ci_acct cinp) = a"
    using assms(1,6) by (simp add: get_account_number_Some)
  let ?w1 = "\<lparr>disk = Some (pwrite d (?i * RECORD_SIZE) (encode empty_client)),
               stream_pos = ?i * RECORD_SIZE + RECORD_SIZE,
               io_log = io_log w @ [EvOpen RBplus, EvSeek (?i * RECORD_SIZE),
                                    EvRead (?i * RECORD_SIZE), EvSeek (?i * RECORD_SIZE),
                                    EvWrite (?i * RECORD_SIZE), EvClose]\<rparr>"
  have del: "delete_account fr1 dinp w = (Deleted, ?w1)"
    using assms(2,4,5) by (simp add: delete_account_run [OF gd nz d])
  have d1: "disk ?w1 = Some (pwrite d (?i * RECORD_SIZE) (encode empty_client))"
    by simp
  have s1: "stored_at ?w1 ?i = Some empty_client"
    using d1 wf_empty_client by (rule stored_at_written)
  then have free: "\<not> occupied ?w1 ?i"
    by (simp add: occupied_def empty_client_def)
  then have ex: "fst (account_exists junk a ?w1) = False"
    using account_exists_occupied [OF assms(1), of junk ?w1] by simp
  note b = built_client_facts [OF assms(8), of cinp]
  obtain w2 where cr: "create_account fr2 cinp ?w1 = (Created ?r, w2)"
    and d2: "disk w2 = Some (pwrite (pwrite d (?i * RECORD_SIZE) (encode empty_client))
                               (?i * RECORD_SIZE) (encode ?r))"
    using create_created [OF gc nz d1 free assms(7)] by simp
  have st2: "stored_at w2 ?i = Some ?r"
    using d2 b(1) by (rule stored_at_written)
  have ar: "acct_num ?r = a" using b(2) gc by simp
  have occ2: "occupied w2 ?i"
    using st2 ar nz by (simp add: occupied_def)
  have sl: "decode (slot (pwrite (pwrite d (?i * RECORD_SIZE) (encode empty_client))
                               (?i * RECORD_SIZE) (encode ?r)) ?i) = ?r"
    using b(1) by (simp add: slot_pwrite_same)
  obtain w3 where rd: "read_account fr3 (Some a) w2 = (Read_found ?r, w3)"
    using read_account_run [OF assms(1) d2, of fr3] occ2 sl by simp
  from del s1 ex cr rd ar b(3,4,5) show ?thesis by blast
qed

theorem delete_then_recreate_witness:
  "\<exists>w1 w2 w3 r.
     delete_account
       \<lparr>junk_client = empty_client, junk_last = replicate 15 (CHR ''#''),
          junk_first = replicate 10 (CHR ''#'')\<rparr>
       \<lparr>di_acct = Some 3, di_confirmation = Some (CHR ''Y'')\<rparr>
       \<lparr>disk = Some (replicate 80 NUL @
                 encode \<lparr>acct_num = 3, last_name = ''Old'' @ replicate 12 NUL,
                          first_name = ''Name'' @ replicate 6 NUL,
                          balance = 0x4062C00000000000\<rparr>),
          stream_pos = 0, io_log = []\<rparr> = (Deleted, w1)
     \<and> stored_at w1 2 = Some empty_client
     \<and> fst (account_exists empty_client 3 w1) = False
     \<and> create_account
       \<lparr>junk_client = empty_client, junk_last = replicate 15 (CHR ''#''),
          junk_first = replicate 10 (CHR ''#'')\<rparr>
       \<lparr>ci_acct = Some 3, ci_last = ''Doe'' @ [CHR 0x0A], ci_first = ''Jane'' @ [CHR 0x0A],
          ci_balance = Some 0x4059000000000000\<rparr> w1 = (Created r, w2)
     \<and> read_account
       \<lparr>junk_client = empty_client, junk_last = replicate 15 (CHR ''#''),
          junk_first = replicate 10 (CHR ''#'')\<rparr> (Some 3) w2 = (Read_found r, w3)
     \<and> acct_num r = 3 \<and> balance r = 0x4059000000000000
     \<and> c_str (last_name r) = ''Doe'' \<and> c_str (first_name r) = ''Jane''"
proof -
  let ?fr = "\<lparr>junk_client = empty_client, junk_last = replicate 15 (CHR ''#''),
          junk_first = replicate 10 (CHR ''#'')\<rparr>"
  let ?old = "\<lparr>acct_num = 3, last_name = ''Old'' @ replicate 12 NUL,
                first_name = ''Name'' @ replicate 6 NUL, balance = 0x4062C00000000000\<rparr>"
  let ?w = "\<lparr>disk = Some (replicate 80 NUL @ encode ?old), stream_pos = 0, io_log = []\<rparr>"
  let ?dinp = "\<lparr>di_acct = Some 3, di_confirmation = Some (CHR ''Y'')\<rparr>"
  let ?cinp = "\<lparr>ci_acct = Some 3, ci_last = ''Doe'' @ [CHR 0x0A],
          ci_first = ''Jane'' @ [CHR 0x0A], ci_balance = Some (0x4059000000000000 :: double)\<rparr>"
  have v: "validate_account_number 3"
    by (simp add: validate_account_number_def)
  have wfo: "wf_client ?old" by (simp add: wf_client_def)
  have "slot (replicate 80 NUL @ encode ?old) 2 = encode ?old"
    using wfo by (simp add: slot_def)
  then have occ: "occupied ?w (unat (3 :: u32) - 1)"
    using wfo by (simp add: occupied_def stored_at_def)
  have y: "tolower (CHR ''Y'') = CHR ''y''"
    by code_simp
  have nv: "names_valid ?fr ?cinp"
    by code_simp
  have wf: "wf_frame ?fr" by (simp add: wf_frame_def)
  have l: "take 14 (c_str (get_name_input (junk_last ?fr) 15 (ci_last ?cinp))) = ''Doe''"
    by code_simp
  have f: "take 9 (c_str (get_name_input (junk_first ?fr) 10 (ci_first ?cinp))) = ''Jane''"
    by code_simp
  have da: "di_acct ?dinp = Some 3" and dc: "di_confirmation ?dinp = Some (CHR ''Y'')"
    and ca: "ci_acct ?cinp = Some 3"
    by simp_all
  have b: "get_balance_input (ci_balance ?cinp) = 0x4059000000000000"
    by (simp add: get_balance_input_def)
  from delete_then_recreate [OF v occ da dc y ca nv wf, of ?fr empty_client ?fr]
  obtain w1 w2 w3 r where
    "delete_account ?fr ?dinp ?w = (Deleted, w1)"
    "stored_at w1 (unat (3 :: u32) - 1) = Some empty_client"
    "fst (account_exists empty_client 3 w1) = False"
    "create_account ?fr ?cinp w1 = (Created r, w2)"
    "read_account ?fr (Some 3) w2 = (Read_found r, w3)"
    "acct_num r = 3"
    "balance r = get_balance_input (ci_balance ?cinp)"
    "c_str (last_name r) = take 14 (c_str (get_name_input (junk_last ?fr) 15 (ci_last ?cinp)))"
    "c_str (first_name r) = take 9 (c_str (get_name_input (junk_first ?fr) 10 (ci_first ?cinp)))"
    by blast
  then have
    "delete_account ?fr ?dinp ?w = (Deleted, w1)
     \<and> stored_at w1 2 = Some empty_client
     \<and> fst (account_exists empty_client 3 w1) = False
     \<and> create_account ?fr ?cinp w1 = (Created r, w2)
     \<and> read_account ?fr (Some 3) w2 = (Read_found r, w3)
     \<and> acct_num r = 3 \<and> balance r = 0x4059000000000000
     \<and> c_str (last_name r) = ''Doe'' \<and> c_str (first_name r) = ''Jane''"
    unfolding l f b by simp
  then show ?thesis by blast
qed

section \<open>Updating an account, and the slot of every account number\<close>

lemma update_switch_Inr:
  assumes "update_switch dadd inp choice c = Inr c'"
  shows "acct_num c' = acct_num c" and "wf_client c \<Longrightarrow> wf_client c'"
  using assms
  by (auto simp add: update_switch_def Let_def wf_client_def split: if_splits)

lemma update_invalid_number:
  "get_account_number (ui_acct inp) = 0 \<Longrightarrow>
     update_account dadd fr inp w = (Update_invalid_number, w)"
  by (simp add: update_account_def)


lemma update_account_run:
  assumes "get_account_number (ui_acct inp) = a" "a \<noteq> 0" "disk w = Some d"
  shows "update_account dadd fr inp w =
     (if \<not> occupied w (unat a - 1) then
        (Update_not_found,
         \<lparr>disk = Some d,
            stream_pos = (unat a - 1) * RECORD_SIZE + length (slot d (unat a - 1)),
            io_log = io_log w @ [EvOpen RBplus, EvSeek ((unat a - 1) * RECORD_SIZE),
                                 EvRead ((unat a - 1) * RECORD_SIZE), EvClose]\<rparr>)
      else
        (case ui_choice inp of
           None \<Rightarrow>
             (Update_invalid_input,
              \<lparr>disk = Some d,
                 stream_pos = (unat a - 1) * RECORD_SIZE + length (slot d (unat a - 1)),
                 io_log = io_log w @ [EvOpen RBplus, EvSeek ((unat a - 1) * RECORD_SIZE),
                                      EvRead ((unat a - 1) * RECORD_SIZE), EvClose]\<rparr>)
         | Some choice \<Rightarrow>
             (case update_switch dadd inp choice (decode (slot d (unat a - 1))) of
                Inl r \<Rightarrow>
                  (r,
                   \<lparr>disk = Some d,
                      stream_pos = (unat a - 1) * RECORD_SIZE + length (slot d (unat a - 1)),
                      io_log = io_log w @ [EvOpen RBplus, EvSeek ((unat a - 1) * RECORD_SIZE),
                                           EvRead ((unat a - 1) * RECORD_SIZE), EvClose]\<rparr>)
              | Inr client' \<Rightarrow>
                  (Updated client',
                   \<lparr>disk = Some (pwrite d ((unat a - 1) * RECORD_SIZE) (encode client')),
                      stream_pos = (unat a - 1) * RECORD_SIZE + RECORD_SIZE,
                      io_log = io_log w @ [EvOpen RBplus, EvSeek ((unat a - 1) * RECORD_SIZE),
                                           EvRead ((unat a - 1) * RECORD_SIZE),
                                           EvSeek ((unat a - 1) * RECORD_SIZE),
                                           EvWrite ((unat a - 1) * RECORD_SIZE), EvClose]\<rparr>))))"
proof -
  have v: "validate_account_number a"
    using assms(1,2) get_account_number_valid [of "ui_acct inp"] by simp
  note p = position_facts [OF v]
  let ?i = "unat a - 1"
  let ?w1 = "\<lparr>disk = Some d, stream_pos = 0, io_log = io_log w @ [EvOpen RBplus]\<rparr>"
  let ?w2 = "\<lparr>disk = Some d, stream_pos = ?i * RECORD_SIZE + length (slot d ?i),
               io_log = io_log w @ [EvOpen RBplus, EvSeek (?i * RECORD_SIZE),
                                    EvRead (?i * RECORD_SIZE)]\<rparr>"
  have rd: "read_client_from_file (Some RBplus) (Some (junk_client fr)) (sint (a - 1)) ?w1 =
           (length (slot d ?i) = RECORD_SIZE,
            Some (if length (slot d ?i) = RECORD_SIZE then decode (slot d ?i)
                  else decode (poke (encode (junk_client fr)) 0 (slot d ?i))),
            ?w2)"
    using read_client_from_file_run [OF p(1,2), of ?w1 d RBplus "junk_client fr"]
    by (simp add: readable_def p(3))
  have wr: "write_client_to_file (Some RBplus) (Some c') (sint (a - 1))
              \<lparr>disk = Some d, stream_pos = sp,
                 io_log = io_log w @ [EvOpen RBplus, EvSeek (?i * RECORD_SIZE),
                                      EvRead (?i * RECORD_SIZE)]\<rparr> =
           (True, \<lparr>disk = Some (pwrite d (?i * RECORD_SIZE) (encode c')),
                    stream_pos = ?i * RECORD_SIZE + RECORD_SIZE,
                    io_log = io_log w @ [EvOpen RBplus, EvSeek (?i * RECORD_SIZE),
                                    EvRead (?i * RECORD_SIZE), EvSeek (?i * RECORD_SIZE),
                                    EvWrite (?i * RECORD_SIZE)]\<rparr>)" for sp c'
    using write_client_to_file_run [OF p(1,2), of
        "\<lparr>disk = Some d, stream_pos = sp,
                 io_log = io_log w @ [EvOpen RBplus, EvSeek (?i * RECORD_SIZE),
                                      EvRead (?i * RECORD_SIZE)]\<rparr>" d RBplus c']
    by (simp add: writable_def p(3))
  show ?thesis
    using assms(2) wr
    by (simp add: update_account_def assms(1) open_rbplus_present [OF assms(3)] rd close_run
        emit_def occupied_iff [OF assms(3)] split: option.splits sum.splits)
qed

lemma store_inv_cong: "disk w' = disk w \<Longrightarrow> store_inv w' = store_inv w"
  by (simp add: store_inv_def)

lemma pwrite_preserves_inv:
  assumes "store_inv w" and "disk w = Some d" and "i < 100" and "wf_client c"
    and "acct_num c = 0 \<or> unat (acct_num c) = i + 1"
    and "disk w' = Some (pwrite d (i * RECORD_SIZE) (encode c))"
  shows "store_inv w'"
proof -
  from assms(1,2) have len: "length d = 100 * RECORD_SIZE"
    and inv: "\<And>j. j < 100 \<Longrightarrow> acct_num (decode (slot d j)) \<noteq> 0
                 \<Longrightarrow> unat (acct_num (decode (slot d j))) = j + 1"
    by (simp_all add: store_inv_def)
  have inside: "i * RECORD_SIZE + RECORD_SIZE \<le> length d"
    using assms(3) len by simp
  have l: "length (pwrite d (i * RECORD_SIZE) (encode c)) = 100 * RECORD_SIZE"
    using inside len assms(4) by (simp add: length_pwrite)
  have "acct_num (decode (slot (pwrite d (i * RECORD_SIZE) (encode c)) j)) \<noteq> 0
          \<longrightarrow> unat (acct_num (decode (slot (pwrite d (i * RECORD_SIZE) (encode c)) j))) = j + 1"
    if j: "j < 100" for j
  proof (cases "j = i")
    case True
    then show ?thesis
      using assms(4,5) by (auto simp add: slot_pwrite_same)
  next
    case False
    then have "slot (pwrite d (i * RECORD_SIZE) (encode c)) j = slot d j"
      using inside assms(4) by (intro slot_pwrite_other) simp_all
    then show ?thesis using inv [OF j] by simp
  qed
  then show ?thesis
    using l assms(6) by (simp add: store_inv_def)
qed

lemma store_inv_disk: "store_inv w \<Longrightarrow> \<exists>d. disk w = Some d"
  by (cases "disk w") (simp_all add: store_inv_def)

lemma store_inv_slot:
  assumes "store_inv w" "disk w = Some d" "i < 100"
  shows "length (slot d i) = RECORD_SIZE"
    and "acct_num (decode (slot d i)) \<noteq> 0 \<Longrightarrow> unat (acct_num (decode (slot d i))) = i + 1"
  using assms by (simp_all add: store_inv_def length_slot_full)

lemma store_inv_initialize: "store_inv (initialize_data_file w)"
  by (simp add: store_inv_def initialize_data_file_run slot_zeros decode_zeros empty_client_def)

lemma create_preserves_inv:
  assumes "store_inv w" "wf_frame fr"
  shows "store_inv (snd (create_account fr inp w))"
proof -
  define a where "a = get_account_number (ci_acct inp)"
  have g: "get_account_number (ci_acct inp) = a" by (simp add: a_def)
  from assms(1) obtain d where d: "disk w = Some d" using store_inv_disk by blast
  show ?thesis
  proof (cases "a = 0")
    case True
    then show ?thesis using assms(1) g by (simp add: create_invalid_number)
  next
    case nz: False
    then have v: "validate_account_number a"
      using get_account_number_valid [of "ci_acct inp"] g by simp
    note aw = account_exists_world [of "junk_client fr" a w]
    show ?thesis
    proof (cases "fst (account_exists (junk_client fr) a w)")
      case True
      then have e: "account_exists (junk_client fr) a w
                 = (True, snd (account_exists (junk_client fr) a w))"
        using account_exists_pair [of "junk_client fr" a w] by simp
      show ?thesis
        using assms(1) aw store_inv_cong [of "snd (account_exists (junk_client fr) a w)" w]
        by (simp add: create_exists [OF g nz e])
    next
      case False
      then have e: "account_exists (junk_client fr) a w
                 = (False, snd (account_exists (junk_client fr) a w))"
        using account_exists_pair [of "junk_client fr" a w] by simp
      from False have free: "\<not> occupied w (unat a - 1)"
        using account_exists_occupied [OF v, of "junk_client fr" w] by simp
      show ?thesis
      proof (cases "names_valid fr inp")
        case False
        show ?thesis
          using assms(1) aw store_inv_cong [of "snd (account_exists (junk_client fr) a w)" w]
          by (simp add: create_invalid_name [OF g nz e False])
      next
        case True
        note b = built_client_facts [OF assms(2), of inp]
        have "store_inv (snd (create_account fr inp w))"
        proof (rule pwrite_preserves_inv [OF assms(1) d index_less [OF v] b(1)])
          show "acct_num (built_client fr inp) = 0
                  \<or> unat (acct_num (built_client fr inp)) = unat a - 1 + 1"
            using b(2) g unat_index [OF v] by simp
          show "disk (snd (create_account fr inp w))
                  = Some (pwrite d ((unat a - 1) * RECORD_SIZE) (encode (built_client fr inp)))"
            by (simp add: create_created [OF g nz d free True])
        qed
        then show ?thesis .
      qed
    qed
  qed
qed

lemma delete_preserves_inv:
  assumes "store_inv w"
  shows "store_inv (snd (delete_account fr inp w))"
proof -
  define a where "a = get_account_number (di_acct inp)"
  have g: "get_account_number (di_acct inp) = a" by (simp add: a_def)
  from assms(1) obtain d where d: "disk w = Some d" using store_inv_disk by blast
  show ?thesis
  proof (cases "a = 0")
    case True
    then show ?thesis using assms(1) g by (simp add: delete_invalid_number)
  next
    case nz: False
    then have v: "validate_account_number a"
      using get_account_number_valid [of "di_acct inp"] g by simp
    have "disk (snd (delete_account fr inp w)) = disk w
          \<or> disk (snd (delete_account fr inp w))
               = Some (pwrite d ((unat a - 1) * RECORD_SIZE) (encode empty_client))"
      using d by (simp add: delete_account_run [OF g nz d] split: option.splits)
    then show ?thesis
    proof
      assume "disk (snd (delete_account fr inp w)) = disk w"
      then show ?thesis using assms store_inv_cong by blast
    next
      assume "disk (snd (delete_account fr inp w))
               = Some (pwrite d ((unat a - 1) * RECORD_SIZE) (encode empty_client))"
      then show ?thesis
        by (intro pwrite_preserves_inv [OF assms d index_less [OF v] wf_empty_client])
           (simp_all add: empty_client_def)
    qed
  qed
qed

lemma update_preserves_inv:
  assumes "store_inv w"
  shows "store_inv (snd (update_account dadd fr inp w))"
proof -
  define a where "a = get_account_number (ui_acct inp)"
  have g: "get_account_number (ui_acct inp) = a" by (simp add: a_def)
  from assms(1) obtain d where d: "disk w = Some d" using store_inv_disk by blast
  show ?thesis
  proof (cases "a = 0")
    case True
    then show ?thesis using assms(1) g by (simp add: update_invalid_number)
  next
    case nz: False
    then have v: "validate_account_number a"
      using get_account_number_valid [of "ui_acct inp"] g by simp
    let ?i = "unat a - 1"
    let ?c = "decode (slot d ?i)"
    note sl = store_inv_slot [OF assms d index_less [OF v]]
    have "disk (snd (update_account dadd fr inp w)) = disk w
          \<or> (\<exists>choice c'. occupied w ?i \<and> update_switch dadd inp choice ?c = Inr c'
                \<and> disk (snd (update_account dadd fr inp w))
                     = Some (pwrite d (?i * RECORD_SIZE) (encode c')))"
      using d by (auto simp add: update_account_run [OF g nz d] split: option.splits sum.splits)
    then show ?thesis
    proof (elim disjE exE conjE)
      assume "disk (snd (update_account dadd fr inp w)) = disk w"
      then show ?thesis using assms store_inv_cong by blast
    next
      fix choice c'
      assume occ: "occupied w ?i" and sw: "update_switch dadd inp choice ?c = Inr c'"
        and dd: "disk (snd (update_account dadd fr inp w))
                     = Some (pwrite d (?i * RECORD_SIZE) (encode c'))"
      from occ have nzc: "acct_num ?c \<noteq> 0"
        by (simp add: occupied_iff [OF d])
      have wfc: "wf_client ?c" using sl(1) by (rule wf_decode)
      note us = update_switch_Inr [OF sw]
      show ?thesis
      proof (rule pwrite_preserves_inv [OF assms d index_less [OF v] us(2) [OF wfc] _ dd])
        show "acct_num c' = 0 \<or> unat (acct_num c') = ?i + 1"
          using sl(2) [OF nzc] us(1) by simp
      qed
    qed
  qed
qed

lemma read_preserves_inv:
  assumes "store_inv w"
  shows "store_inv (snd (read_account fr scanned w))"
proof -
  from assms(1) obtain d where d: "disk w = Some d" using store_inv_disk by blast
  show ?thesis
  proof (cases "get_account_number scanned = 0")
    case True
    then show ?thesis using assms by (simp add: read_account_def)
  next
    case False
    then have v: "validate_account_number (get_account_number scanned)"
      by (rule get_account_number_valid)
    have "read_account fr scanned w = read_account fr (Some (get_account_number scanned)) w"
      using v by (simp add: read_account_def get_account_number_Some)
    then show ?thesis
      using assms d store_inv_cong [of "snd (read_account fr scanned w)" w]
      by (simp add: read_account_run [OF v d])
  qed
qed

text \<open>
  Claim C1, as the code refutes it. The write path of the slot store takes any record for
  any slot of 0 to 99: as in \<open>test_file_writing\<close> of \<^verbatim>\<open>version2.c\<close>, a record with account
  number 99 written at position 10 is stored there, in slot 10 and not in slot 98, by
  \<open>write_client_to_file\<close> of either version.
\<close>

theorem write_foreign_slot_counterexample:
  "write_client_to_file_v2 (Some WBplus)
     (Some \<lparr>acct_num = 99, last_name = ''TestLast'' @ replicate 7 NUL,
             first_name = ''TestFirst'' @ [NUL], balance = 0x405EDCCCCCCCCCCD\<rparr>)
     10 \<lparr>disk = Some [], stream_pos = 0, io_log = [EvOpen WBplus]\<rparr>
   = (True,
      \<lparr>disk = Some (pwrite [] 400
           (encode \<lparr>acct_num = 99, last_name = ''TestLast'' @ replicate 7 NUL,
                     first_name = ''TestFirst'' @ [NUL], balance = 0x405EDCCCCCCCCCCD\<rparr>)),
         stream_pos = 440, io_log = [EvOpen WBplus, EvSeek 400, EvWrite 400]\<rparr>)
   \<and> stored_at
        \<lparr>disk = Some (pwrite [] 400
           (encode \<lparr>acct_num = 99, last_name = ''TestLast'' @ replicate 7 NUL,
                     first_name = ''TestFirst'' @ [NUL], balance = 0x405EDCCCCCCCCCCD\<rparr>)),
         stream_pos = 440, io_log = [EvOpen WBplus, EvSeek 400, EvWrite 400]\<rparr> 10
      = Some \<lparr>acct_num = 99, last_name = ''TestLast'' @ replicate 7 NUL,
               first_name = ''TestFirst'' @ [NUL], balance = 0x405EDCCCCCCCCCCD\<rparr>
   \<and> write_client_to_file (Some WBplus)
     (Some \<lparr>acct_num = 99, last_name = ''TestLast'' @ replicate 7 NUL,
             first_name = ''TestFirst'' @ [NUL], balance = 0x405EDCCCCCCCCCCD\<rparr>)
     10 \<lparr>disk = Some [], stream_pos = 0, io_log = [EvOpen WBplus]\<rparr>
   = (True,
      \<lparr>disk = Some (pwrite [] 400
           (encode \<lparr>acct_num = 99, last_name = ''TestLast'' @ replicate 7 NUL,
                     first_name = ''TestFirst'' @ [NUL], balance = 0x405EDCCCCCCCCCCD\<rparr>)),
         stream_pos = 440, io_log = [EvOpen WBplus, EvSeek 400, EvWrite 400]\<rparr>)"
proof -
  let ?r = "\<lparr>acct_num = 99, last_name = ''TestLast'' @ replicate 7 NUL,
             first_name = ''TestFirst'' @ [NUL], balance = 0x405EDCCCCCCCCCCD\<rparr>"
  let ?w = "\<lparr>disk = Some [], stream_pos = 0, io_log = [EvOpen WBplus]\<rparr>"
  let ?w' = "\<lparr>disk = Some (pwrite [] 400 (encode ?r)),
         stream_pos = 440, io_log = [EvOpen WBplus, EvSeek 400, EvWrite 400]\<rparr>"
  have wf: "wf_client ?r" by (simp add: wf_client_def)
  have 1: "write_client_to_file_v2 (Some WBplus) (Some ?r) 10 ?w = (True, ?w')"
    using write_client_to_file_v2_run [of 10 ?w "[]" WBplus ?r]
    by (simp add: writable_def)
  have 3: "write_client_to_file (Some WBplus) (Some ?r) 10 ?w = (True, ?w')"
    using write_client_to_file_run [of 10 ?w "[]" WBplus ?r]
    by (simp add: writable_def)
  have "disk ?w' = Some (pwrite [] (10 * RECORD_SIZE) (encode ?r))" by simp
  then have 2: "stored_at ?w' 10 = Some ?r"
    using wf by (rule stored_at_written)
  from 1 2 3 show ?thesis by (intro conjI)
qed


text \<open>
  Claim C1, as the code has it. The operations of \<^verbatim>\<open>version3.c\<close> keep the store that the
  data model asks for: \<open>initialize_data_file\<close> makes a store of a hundred slots in which
  every account number that is not zero is the number of its slot plus one, and from such
  a store \<open>create_account\<close>, \<open>update_account\<close>, \<open>delete_account\<close> and \<open>read_account\<close> lead to such
  a store again, whatever their input. A \<open>create_account\<close> that creates a record stores it in
  the slot of its account number minus one. The write path itself checks the position
  alone.
\<close>

theorem crud_preserves_slot_invariant:
  "store_inv (initialize_data_file w0)
   \<and> (store_inv w \<longrightarrow>
        (wf_frame fr \<longrightarrow> store_inv (snd (create_account fr cinp w)))
        \<and> store_inv (snd (update_account dadd fr uinp w))
        \<and> store_inv (snd (delete_account fr dinp w))
        \<and> store_inv (snd (read_account fr scanned w)))
   \<and> (wf_frame fr \<and> create_account fr cinp w = (Created r, w') \<longrightarrow>
        acct_num r = get_account_number (ci_acct cinp) \<and> acct_num r \<noteq> 0
        \<and> stored_at w' (unat (acct_num r) - 1) = Some r)"
proof (intro conjI impI)
  show "store_inv (initialize_data_file w0)" by (rule store_inv_initialize)
next
  assume "store_inv w" and "wf_frame fr"
  then show "store_inv (snd (create_account fr cinp w))" by (rule create_preserves_inv)
next
  assume "store_inv w"
  then show "store_inv (snd (update_account dadd fr uinp w))" by (rule update_preserves_inv)
next
  assume "store_inv w"
  then show "store_inv (snd (delete_account fr dinp w))" by (rule delete_preserves_inv)
next
  assume "store_inv w"
  then show "store_inv (snd (read_account fr scanned w))" by (rule read_preserves_inv)
next
  assume h: "wf_frame fr \<and> create_account fr cinp w = (Created r, w')"
  then have wf: "wf_frame fr" and c: "create_account fr cinp w = (Created r, w')"
    by simp_all
  note inv = create_Created_inversion [OF c]
  from inv have r: "r = built_client fr cinp" by simp
  show a: "acct_num r = get_account_number (ci_acct cinp)"
    unfolding r using wf by (rule built_client_facts(2))
  from inv show "acct_num r \<noteq> 0" using a by simp
  have wfr: "wf_client r" unfolding r using wf by (rule built_client_facts(1))
  from inv a obtain d where
    "disk w' = Some (pwrite d ((unat (acct_num r) - 1) * RECORD_SIZE) (encode r))"
    by auto
  then show "stored_at w' (unat (acct_num r) - 1) = Some r"
    using wfr by (rule stored_at_written)
qed

theorem crud_preserves_slot_invariant_witness:
  "store_inv (initialize_data_file \<lparr>disk = None, stream_pos = 0, io_log = []\<rparr>)
   \<and> store_inv (snd (create_account
        \<lparr>junk_client = empty_client, junk_last = replicate 15 (CHR ''#''),
           junk_first = replicate 10 (CHR ''#'')\<rparr>
        \<lparr>ci_acct = Some 5, ci_last = ''Doe'' @ [CHR 0x0A], ci_first = ''Jane'' @ [CHR 0x0A],
           ci_balance = Some 0x4059000000000000\<rparr>
        (initialize_data_file \<lparr>disk = None, stream_pos = 0, io_log = []\<rparr>)))
   \<and> store_inv (snd (update_account (+)
        \<lparr>junk_client = empty_client, junk_last = replicate 15 (CHR ''#''),
           junk_first = replicate 10 (CHR ''#'')\<rparr>
        \<lparr>ui_acct = Some 5, ui_choice = Some 1, ui_amount = Some 0x4049000000000000,
           ui_last = [], ui_first = []\<rparr>
        (initialize_data_file \<lparr>disk = None, stream_pos = 0, io_log = []\<rparr>)))
   \<and> store_inv (snd (delete_account
        \<lparr>junk_client = empty_client, junk_last = replicate 15 (CHR ''#''),
           junk_first = replicate 10 (CHR ''#'')\<rparr>
        \<lparr>di_acct = Some 5, di_confirmation = Some (CHR ''y'')\<rparr>
        (initialize_data_file \<lparr>disk = None, stream_pos = 0, io_log = []\<rparr>)))
   \<and> (\<exists>r w'. create_account
        \<lparr>junk_client = empty_client, junk_last = replicate 15 (CHR ''#''),
           junk_first = replicate 10 (CHR ''#'')\<rparr>
        \<lparr>ci_acct = Some 5, ci_last = ''Doe'' @ [CHR 0x0A], ci_first = ''Jane'' @ [CHR 0x0A],
           ci_balance = Some 0x4059000000000000\<rparr>
        (initialize_data_file \<lparr>disk = None, stream_pos = 0, io_log = []\<rparr>) = (Created r, w')
      \<and> acct_num r = 5 \<and> stored_at w' 4 = Some r)"
proof -
  let ?fr = "\<lparr>junk_client = empty_client, junk_last = replicate 15 (CHR ''#''),
           junk_first = replicate 10 (CHR ''#'')\<rparr>"
  let ?fresh = "\<lparr>disk = None, stream_pos = 0, io_log = []\<rparr>"
  let ?store = "initialize_data_file ?fresh"
  let ?cinp = "\<lparr>ci_acct = Some 5, ci_last = ''Doe'' @ [CHR 0x0A],
           ci_first = ''Jane'' @ [CHR 0x0A], ci_balance = Some (0x4059000000000000 :: double)\<rparr>"
  let ?uinp = "\<lparr>ui_acct = Some 5, ui_choice = Some 1,
           ui_amount = Some (0x4049000000000000 :: double), ui_last = [], ui_first = []\<rparr>"
  let ?dinp = "\<lparr>di_acct = Some 5, di_confirmation = Some (CHR ''y'')\<rparr>"
  have wf: "wf_frame ?fr" by (simp add: wf_frame_def)
  have nv: "names_valid ?fr ?cinp" by code_simp
  have v: "validate_account_number 5"
    by (simp add: validate_account_number_def)
  have g: "get_account_number (ci_acct ?cinp) = 5"
    using v by (simp add: get_account_number_Some)
  have d: "disk ?store = Some (replicate (100 * RECORD_SIZE) NUL)"
    by (simp add: initialize_data_file_run)
  have free: "\<not> occupied ?store (unat (5 :: u32) - 1)"
    using stored_at_zero_disk [OF d, of 4] by (simp add: occupied_def empty_client_def)
  obtain w1 where c: "create_account ?fr ?cinp ?store = (Created (built_client ?fr ?cinp), w1)"
    using create_created [OF g _ d free nv] by simp
  note t = crud_preserves_slot_invariant
    [where ?w0.0 = ?fresh and w = ?store and fr = ?fr and cinp = ?cinp
       and dadd = "(+)" and uinp = ?uinp and dinp = ?dinp
       and r = "built_client ?fr ?cinp" and w' = w1]
  from t have i: "store_inv ?store" by (rule conjunct1)
  from t i wf have 1: "store_inv (snd (create_account ?fr ?cinp ?store))"
    and 2: "store_inv (snd (update_account (+) ?fr ?uinp ?store))"
    and 3: "store_inv (snd (delete_account ?fr ?dinp ?store))"
    by blast+
  from t wf c have "acct_num (built_client ?fr ?cinp) = get_account_number (ci_acct ?cinp)
      \<and> stored_at w1 (unat (acct_num (built_client ?fr ?cinp)) - 1)
            = Some (built_client ?fr ?cinp)"
    by blast
  then have 4: "acct_num (built_client ?fr ?cinp) = 5
      \<and> stored_at w1 4 = Some (built_client ?fr ?cinp)"
    using get_account_number_Some [OF v] by auto
  from i 1 2 3 c 4 show ?thesis by blast
qed

section \<open>Terminated names in the store\<close>



























end
